theory Spec2Isabelle
  imports Complex_Main
begin

section \<open>BoutReal\<close>

text \<open>
  \<open>BoutReal\<close> is the C++ \<open>double\<close>. The model keeps the four kinds of value a double
  can hold (a finite number, the two infinities, not-a-number) and computes exactly on the
  finite ones: rounding, overflow and the sign of zero are not modelled. A nonzero finite
  number divided by zero is the infinity with the sign of the numerator, every comparison
  with \<open>NaN\<close> is false.
\<close>

datatype BoutReal = Fin real | PInf | NInf | NaN

instantiation BoutReal :: "{zero, one, plus, uminus, minus, times, inverse, abs, ord}"
begin

definition zero_BoutReal :: BoutReal where "0 = Fin 0"
definition one_BoutReal :: BoutReal where "1 = Fin 1"

fun plus_BoutReal :: "BoutReal \<Rightarrow> BoutReal \<Rightarrow> BoutReal" where
  "Fin a + Fin b = Fin (a + b)"
| "NaN + _ = NaN"
| "_ + NaN = NaN"
| "PInf + NInf = NaN"
| "NInf + PInf = NaN"
| "PInf + _ = PInf"
| "_ + PInf = PInf"
| "NInf + _ = NInf"
| "_ + NInf = NInf"

fun uminus_BoutReal :: "BoutReal \<Rightarrow> BoutReal" where
  "- Fin a = Fin (- a)"
| "- PInf = NInf"
| "- NInf = PInf"
| "- NaN = NaN"

definition minus_BoutReal :: "BoutReal \<Rightarrow> BoutReal \<Rightarrow> BoutReal" where
  "a - b = a + (- b)" for a b :: BoutReal

fun times_BoutReal :: "BoutReal \<Rightarrow> BoutReal \<Rightarrow> BoutReal" where
  "Fin a * Fin b = Fin (a * b)"
| "NaN * _ = NaN"
| "_ * NaN = NaN"
| "Fin a * PInf = (if a = 0 then NaN else if 0 < a then PInf else NInf)"
| "Fin a * NInf = (if a = 0 then NaN else if 0 < a then NInf else PInf)"
| "PInf * Fin b = (if b = 0 then NaN else if 0 < b then PInf else NInf)"
| "NInf * Fin b = (if b = 0 then NaN else if 0 < b then NInf else PInf)"
| "PInf * PInf = PInf"
| "PInf * NInf = NInf"
| "NInf * PInf = NInf"
| "NInf * NInf = PInf"

fun divide_BoutReal :: "BoutReal \<Rightarrow> BoutReal \<Rightarrow> BoutReal" where
  "divide_BoutReal (Fin a) (Fin b) =
     (if b = 0 then (if a = 0 then NaN else if 0 < a then PInf else NInf) else Fin (a / b))"
| "divide_BoutReal NaN _ = NaN"
| "divide_BoutReal _ NaN = NaN"
| "divide_BoutReal (Fin a) PInf = Fin 0"
| "divide_BoutReal (Fin a) NInf = Fin 0"
| "divide_BoutReal PInf (Fin b) = (if 0 \<le> b then PInf else NInf)"
| "divide_BoutReal NInf (Fin b) = (if 0 \<le> b then NInf else PInf)"
| "divide_BoutReal PInf _ = NaN"
| "divide_BoutReal NInf _ = NaN"

definition inverse_BoutReal :: "BoutReal \<Rightarrow> BoutReal" where
  "inverse_BoutReal a =
     (case a of Fin x \<Rightarrow> (if x = 0 then PInf else Fin (1 / x))
      | PInf \<Rightarrow> Fin 0 | NInf \<Rightarrow> Fin 0 | NaN \<Rightarrow> NaN)"

fun abs_BoutReal :: "BoutReal \<Rightarrow> BoutReal" where
  "\<bar>Fin a\<bar> = Fin \<bar>a\<bar>"
| "\<bar>PInf\<bar> = PInf"
| "\<bar>NInf\<bar> = PInf"
| "\<bar>NaN\<bar> = NaN"

fun less_BoutReal :: "BoutReal \<Rightarrow> BoutReal \<Rightarrow> bool" where
  "Fin a < Fin b \<longleftrightarrow> a < b"
| "NaN < _ \<longleftrightarrow> False"
| "_ < NaN \<longleftrightarrow> False"
| "PInf < _ \<longleftrightarrow> False"
| "_ < NInf \<longleftrightarrow> False"
| "NInf < _ \<longleftrightarrow> True"
| "_ < PInf \<longleftrightarrow> True"

fun less_eq_BoutReal :: "BoutReal \<Rightarrow> BoutReal \<Rightarrow> bool" where
  "Fin a \<le> Fin b \<longleftrightarrow> a \<le> b"
| "NaN \<le> _ \<longleftrightarrow> False"
| "_ \<le> NaN \<longleftrightarrow> False"
| "NInf \<le> _ \<longleftrightarrow> True"
| "_ \<le> PInf \<longleftrightarrow> True"
| "PInf \<le> _ \<longleftrightarrow> False"
| "_ \<le> NInf \<longleftrightarrow> False"

instance ..

end

text \<open>\<open>sqrt\<close> of \<open><cmath>\<close>: not-a-number below zero.\<close>

fun bsqrt :: "BoutReal \<Rightarrow> BoutReal" where
  "bsqrt (Fin a) = (if a < 0 then NaN else Fin (sqrt a))"
| "bsqrt PInf = PInf"
| "bsqrt NInf = NaN"
| "bsqrt NaN = NaN"

text \<open>\<open>std::isfinite\<close>.\<close>

fun isfinite :: "BoutReal \<Rightarrow> bool" where
  "isfinite (Fin a) = True"
| "isfinite PInf = False"
| "isfinite NInf = False"
| "isfinite NaN = False"

text \<open>The number a finite value holds (used to state hypotheses on finite values).\<close>

fun the_Fin :: "BoutReal \<Rightarrow> real" where
  "the_Fin (Fin a) = a"
| "the_Fin PInf = 0"
| "the_Fin NInf = 0"
| "the_Fin NaN = 0"

definition BoutNaN :: BoutReal where
  "BoutNaN = NaN"

section \<open>Field arithmetic\<close>

text \<open>
  The arithmetic of the field container is pointwise over the whole local grid. The
  operators on functions below let the formulas of the source be written as they stand
  (difference and unary minus on functions are pointwise in the library already);
  a \<open>BoutReal\<close> in a field expression is the field \<open>scalar v\<close> that holds it
  everywhere, \<open>sqrt\<close> and \<open>abs\<close> of a field are \<open>sqrt_f\<close> and \<open>\<bar>_\<bar>\<close>.
\<close>

instantiation "fun" :: (type, plus) plus
begin

definition plus_fun :: "('a \<Rightarrow> 'b) \<Rightarrow> ('a \<Rightarrow> 'b) \<Rightarrow> 'a \<Rightarrow> 'b" where
  "plus_fun f g = (\<lambda>x. f x + g x)"

instance ..

end

instantiation "fun" :: (type, times) times
begin

definition times_fun :: "('a \<Rightarrow> 'b) \<Rightarrow> ('a \<Rightarrow> 'b) \<Rightarrow> 'a \<Rightarrow> 'b" where
  "times_fun f g = (\<lambda>x. f x * g x)"

instance ..

end

instantiation "fun" :: (type, inverse) inverse
begin

definition inverse_fun :: "('a \<Rightarrow> 'b) \<Rightarrow> 'a \<Rightarrow> 'b" where
  "inverse_fun f = (\<lambda>x. inverse (f x))"

definition divide_fun :: "('a \<Rightarrow> 'b) \<Rightarrow> ('a \<Rightarrow> 'b) \<Rightarrow> 'a \<Rightarrow> 'b" where
  "divide_fun f g = (\<lambda>x. divide (f x) (g x))"

instance ..

end

instantiation "fun" :: (type, abs) abs
begin

definition abs_fun :: "('a \<Rightarrow> 'b) \<Rightarrow> 'a \<Rightarrow> 'b" where
  "abs_fun f = (\<lambda>x. \<bar>f x\<bar>)"

instance ..

end

type_synonym ind = "int \<times> int"

type_synonym grid = "ind \<Rightarrow> BoutReal"

definition scalar :: "BoutReal \<Rightarrow> grid" where
  "scalar v = (\<lambda>p. v)"

definition sqrt_f :: "grid \<Rightarrow> grid" where
  "sqrt_f f = (\<lambda>p. bsqrt (f p))"

section \<open>Locations, regions, errors\<close>

datatype CELL_LOC = CELL_DEFAULT | CELL_CENTRE | CELL_XLOW | CELL_YLOW | CELL_ZLOW | CELL_VSHIFT

datatype REGION = RGN_ALL | RGN_NOBNDRY | RGN_NOX | RGN_NOY

text \<open>
  Every fatal condition of the source is a value. \<open>BoutException\<close> carries the message of
  a \<open>throw BoutException(...)\<close>; \<open>AssertFailed\<close> is a failed \<open>ASSERT1\<close>, with the asserted
  condition (the macro is not under src/: per the spec a violated precondition is fatal, so
  the model is the build in which \<open>ASSERT1\<close> is checked); \<open>SingularMetric jx jy\<close> is the
  return code 1 of the two metric inversions, with the index they report.
\<close>

datatype BoutException =
    BoutException string
  | AssertFailed string
  | SingularMetric int int

text \<open>
  A \<open>Field2D\<close> by value: its data on the index pairs \<open>(x, y)\<close> and its location tag.
\<close>

record Field2D =
  fvals :: grid
  floc :: CELL_LOC

text \<open>
  A \<open>Field3D\<close> by value: its data on the index triples, its location tag and its
  parallel slices. \<open>NoYupYdown\<close>: the field has none (\<open>hasYupYdown()\<close> is false);
  \<open>SameField\<close>: \<open>yup()\<close> and \<open>ydown()\<close> are the field itself; \<open>Distinct u d\<close>: they
  are the separate fields \<open>u\<close> and \<open>d\<close>.
\<close>

type_synonym grid3 = "int \<times> int \<times> int \<Rightarrow> BoutReal"

datatype YupYdown = NoYupYdown | SameField | Distinct grid3 grid3

record Field3D =
  fvals3 :: grid3
  floc3 :: CELL_LOC
  yupydown :: YupYdown

text \<open>
  A boundary region as the loops of the source use it: the direction \<open>(bx, by)\<close> of the
  outward normal (the field \<open>by\<close> is written \<open>by'\<close>, \<open>by\<close> being a keyword), the width in guard cells, and the index pairs \<open>(bndry->x, bndry->y)\<close>
  that \<open>first()\<close>, \<open>isDone()\<close>, \<open>next1d()\<close> visit, in order.
\<close>

record BoundaryRegion =
  bx :: int
  by' :: int
  width :: int
  bpoints :: "ind list"

text \<open>
  The mesh and the collaborators reached through it. None of them is under src/: the index
  bounds and topology predicates are data of the mesh; the halo exchange \<open>communicate\<close>,
  the index-space derivatives \<open>indexDDX\<close>, \<open>indexDDY\<close>, the derivative \<open>::DDY\<close> of a
  \<open>Field3D\<close> (\<open>DDY_3D\<close>) and the interpolation \<open>interp_to\<close>, \<open>interp\<close> of the
  differencing layer are parameters, as are the region
  \<open>min_rgn\<close> that the reduction \<open>min\<close> scans when called without a region, and the
  optional grid-file entries \<open>d2x\<close>, \<open>d2y\<close>.

  \<open>interp_to m f loc = None\<close> stands for "no interpolation is needed": the field returned
  by the source's \<open>interp_to\<close> is then a copy of \<open>f\<close> that shares its data.
\<close>

record Mesh =
  LocalNx :: int
  LocalNy :: int
  LocalNz :: int
  GlobalNx :: int
  GlobalNy :: int
  xstart :: int
  xend :: int
  ystart :: int
  yend :: int
  getBoundaries :: "BoundaryRegion list"
  hasBranchCutDown :: "int \<Rightarrow> bool"
  hasBranchCutUp :: "int \<Rightarrow> bool"
  hasBranchCut :: bool
  IncIntShear :: bool
  communicate :: "grid \<Rightarrow> grid"
  indexDDX :: "Field2D \<Rightarrow> CELL_LOC \<Rightarrow> Field2D"
  indexDDY :: "Field2D \<Rightarrow> CELL_LOC \<Rightarrow> Field2D"
  DDY_3D :: "Field3D \<Rightarrow> CELL_LOC \<Rightarrow> Field3D"
  interp_to :: "Field2D \<Rightarrow> CELL_LOC \<Rightarrow> Field2D option"
  interp :: "BoutReal \<times> BoutReal \<times> BoutReal \<times> BoutReal \<Rightarrow> BoutReal"
  min_rgn :: REGION
  source_d2x :: "grid option"
  source_d2y :: "grid option"

text \<open>
  Modelled from the spec: the regions of the field container are not under src/. Per the
  spec's description of the mesh (interior start and end in each direction, local sizes)
  \<open>RGN_ALL\<close> is every local index pair and \<open>RGN_NOBNDRY\<close> the interior ones; the pairs are
  listed with \<open>x\<close> outermost, as the source's own loops over the grid run.
\<close>

definition rgn_points :: "Mesh \<Rightarrow> REGION \<Rightarrow> ind list" where
  "rgn_points m rgn =
     (case rgn of
        RGN_ALL \<Rightarrow> List.product [0 .. LocalNx m - 1] [0 .. LocalNy m - 1]
      | RGN_NOBNDRY \<Rightarrow> List.product [xstart m .. xend m] [ystart m .. yend m]
      | RGN_NOX \<Rightarrow> List.product [xstart m .. xend m] [0 .. LocalNy m - 1]
      | RGN_NOY \<Rightarrow> List.product [0 .. LocalNx m - 1] [ystart m .. yend m])"

text \<open>
  Modelled from the spec: \<open>finite(f, rgn)\<close> of the field container is not under src/; it
  holds when every value of the field in the region is finite.
\<close>

definition finite_f :: "Mesh \<Rightarrow> grid \<Rightarrow> REGION \<Rightarrow> bool" where
  "finite_f m f rgn = list_all (\<lambda>p. isfinite (f p)) (rgn_points m rgn)"

text \<open>
  Modelled from the spec: \<open>min(f)\<close> of the field container is not under src/; it is the
  least value of the field over the region \<open>min_rgn m\<close>, found by one scan that keeps the
  smaller value under \<open><\<close>. Over an empty region the source has no value to start from;
  the model returns \<open>NaN\<close> there, and every statement below that uses \<open>min_f\<close> assumes
  a region with a point in it.
\<close>

definition min_f :: "Mesh \<Rightarrow> grid \<Rightarrow> BoutReal" where
  "min_f m f =
     (case rgn_points m (min_rgn m) of
        [] \<Rightarrow> NaN
      | p # ps \<Rightarrow> fold (\<lambda>q r. if f q < r then f q else r) ps (f p))"

section \<open>Coordinates\<close>

text \<open>
  The \<open>Coordinates\<close> object. Every field of one object is at the object's \<open>location\<close>: the
  builders below interpolate each of them to it, and the two inversions tag what they
  write with it. So a field is stored as its data alone.
\<close>

record Coordinates =
  dx :: grid
  dy :: grid
  dz :: BoutReal
  nz :: int
  J :: grid
  Bxy :: grid
  g11 :: grid
  g22 :: grid
  g33 :: grid
  g12 :: grid
  g13 :: grid
  g23 :: grid
  g_11 :: grid
  g_22 :: grid
  g_33 :: grid
  g_12 :: grid
  g_13 :: grid
  g_23 :: grid
  G1_11 :: grid
  G1_22 :: grid
  G1_33 :: grid
  G1_12 :: grid
  G1_13 :: grid
  G1_23 :: grid
  G2_11 :: grid
  G2_22 :: grid
  G2_33 :: grid
  G2_12 :: grid
  G2_13 :: grid
  G2_23 :: grid
  G3_11 :: grid
  G3_22 :: grid
  G3_33 :: grid
  G3_12 :: grid
  G3_13 :: grid
  G3_23 :: grid
  G1 :: grid
  G2 :: grid
  G3 :: grid
  d1_dx :: grid
  d1_dy :: grid
  zShift :: grid
  ShiftAngle :: "BoutReal list"
  ShiftTorsion :: grid
  IntShiftTorsion :: grid
  location :: CELL_LOC

section \<open>Metric inversion\<close>

type_synonym Matrix = "BoutReal list list"

text \<open>
  Modelled from the spec: \<open>invert3x3\<close> is not under src/. Per the spec (4.1) it is the
  direct inversion of a 3 by 3 matrix by adjugate and determinant, and it fails when the
  matrix is singular; \<open>None\<close> is the failure (the nonzero return code).
\<close>

definition invert3x3 :: "Matrix \<Rightarrow> Matrix option" where
  "invert3x3 a =
     (let A = a ! 1 ! 1 * a ! 2 ! 2 - a ! 1 ! 2 * a ! 2 ! 1;
          B = a ! 1 ! 2 * a ! 2 ! 0 - a ! 1 ! 0 * a ! 2 ! 2;
          C = a ! 1 ! 0 * a ! 2 ! 1 - a ! 1 ! 1 * a ! 2 ! 0;
          det = a ! 0 ! 0 * A + a ! 0 ! 1 * B + a ! 0 ! 2 * C
      in if det = 0 then None
         else
           (let D = a ! 0 ! 2 * a ! 2 ! 1 - a ! 0 ! 1 * a ! 2 ! 2;
                E = a ! 0 ! 0 * a ! 2 ! 2 - a ! 0 ! 2 * a ! 2 ! 0;
                F = a ! 0 ! 1 * a ! 2 ! 0 - a ! 0 ! 0 * a ! 2 ! 1;
                G = a ! 0 ! 1 * a ! 1 ! 2 - a ! 0 ! 2 * a ! 1 ! 1;
                H = a ! 0 ! 2 * a ! 1 ! 0 - a ! 0 ! 0 * a ! 1 ! 2;
                I = a ! 0 ! 0 * a ! 1 ! 1 - a ! 0 ! 1 * a ! 1 ! 0
            in Some [[A / det, D / det, G / det],
                     [B / det, E / det, H / det],
                     [C / det, F / det, I / det]]))"

text \<open>
  The matrix the two inversions assemble at one index pair:
  \<open>a(0,0) = c11; a(1,1) = c22; a(2,2) = c33; a(0,1) = a(1,0) = c12;
  a(1,2) = a(2,1) = c23; a(0,2) = a(2,0) = c13\<close>.
\<close>

definition metric_matrix ::
  "BoutReal \<Rightarrow> BoutReal \<Rightarrow> BoutReal \<Rightarrow> BoutReal \<Rightarrow> BoutReal \<Rightarrow> BoutReal \<Rightarrow> Matrix" where
  "metric_matrix c11 c22 c33 c12 c13 c23 =
     [[c11, c12, c13],
      [c12, c22, c23],
      [c13, c23, c33]]"

text \<open>
  \<open>Coordinates::calcCovariant\<close>: the loop over \<open>jx\<close>, \<open>jy\<close> (all local index pairs), one
  pair per step. A singular matrix ends the loop with the error. The two diagnostics
  printed after the loop (the largest residuals of the product of the two tensors) change
  no state and are left out.
\<close>

fun calcCovariant_loop :: "ind list \<Rightarrow> Coordinates \<Rightarrow> BoutException + Coordinates" where
  "calcCovariant_loop [] c = Inr c"
| "calcCovariant_loop ((jx, jy) # ps) c =
     (case invert3x3 (metric_matrix (g11 c (jx, jy)) (g22 c (jx, jy)) (g33 c (jx, jy))
                        (g12 c (jx, jy)) (g13 c (jx, jy)) (g23 c (jx, jy))) of
        None \<Rightarrow> Inl (SingularMetric jx jy)
      | Some a \<Rightarrow>
          calcCovariant_loop ps
            (c\<lparr>g_11 := (g_11 c)((jx, jy) := a ! 0 ! 0),
               g_22 := (g_22 c)((jx, jy) := a ! 1 ! 1),
               g_33 := (g_33 c)((jx, jy) := a ! 2 ! 2),
               g_12 := (g_12 c)((jx, jy) := a ! 0 ! 1),
               g_13 := (g_13 c)((jx, jy) := a ! 0 ! 2),
               g_23 := (g_23 c)((jx, jy) := a ! 1 ! 2)\<rparr>))"

definition calcCovariant :: "Mesh \<Rightarrow> Coordinates \<Rightarrow> BoutException + Coordinates" where
  "calcCovariant m c = calcCovariant_loop (rgn_points m RGN_ALL) c"



section \<open>Jacobian\<close>

text \<open>The field \<open>g\<close> of \<open>Coordinates::jacobian\<close>, the determinant of \<open>g^ij\<close>.\<close>

definition jacobian_g :: "Coordinates \<Rightarrow> grid" where
  "jacobian_g c =
     g11 c * g22 c * g33 c + scalar (Fin 2) * g12 c * g13 c * g23 c - g11 c * g23 c * g23 c
       - g22 c * g13 c * g13 c - g33 c * g12 c * g12 c"

text \<open>
  \<open>Coordinates::jacobian\<close>. An exception ends the construction of the object, so the
  state it leaves behind is not returned.
\<close>

definition jacobian :: "Mesh \<Rightarrow> Coordinates \<Rightarrow> BoutException + Coordinates" where
  "jacobian m c =
     (let g = jacobian_g c in
      if min_f m g < Fin 0
      then Inl (BoutException ''The determinant of g^ij is somewhere less than 0.0'')
      else
        (let c1 = c\<lparr>J := scalar (Fin 1) / sqrt_f g\<rparr> in
         if \<not> finite_f m (J c1) RGN_NOBNDRY
         then Inl (BoutException ''ERROR: Jacobian not finite everywhere!'')
         else if min_f m \<bar>J c1\<bar> < Fin (1 / 10 ^ 10)
         then Inl (BoutException ''ERROR: Jacobian becomes very small'')
         else if min_f m (g_22 c1) < Fin 0
         then Inl (BoutException ''g_22 is somewhere less than 0.0'')
         else Inr (c1\<lparr>Bxy := sqrt_f (g_22 c1) / J c1\<rparr>)))"

section \<open>Positive definite metrics\<close>

text \<open>
  The determinant of the symmetric matrix with diagonal \<open>a11, a22, a33\<close> and off-diagonal
  entries \<open>a12, a13, a23\<close>, and positive definiteness by its leading principal minors
  (Sylvester's criterion; \<open>pos_def3_of_quadratic_form\<close> below shows that every matrix with
  a positive quadratic form passes it).
\<close>

definition det3 :: "real \<Rightarrow> real \<Rightarrow> real \<Rightarrow> real \<Rightarrow> real \<Rightarrow> real \<Rightarrow> real" where
  "det3 a11 a22 a33 a12 a13 a23 =
     a11 * a22 * a33 + 2 * a12 * a13 * a23 - a11 * a23 * a23 - a22 * a13 * a13 - a33 * a12 * a12"

definition pos_def3 :: "real \<Rightarrow> real \<Rightarrow> real \<Rightarrow> real \<Rightarrow> real \<Rightarrow> real \<Rightarrow> bool" where
  "pos_def3 a11 a22 a33 a12 a13 a23 \<longleftrightarrow>
     0 < a11 \<and> 0 < a11 * a22 - a12 * a12 \<and> 0 < det3 a11 a22 a33 a12 a13 a23"


text \<open>
  The six components of a metric at one index pair, in the order
  \<open>11, 22, 33, 12, 13, 23\<close>, and one step of the two inversion loops on them.
\<close>

type_synonym metric6 = "BoutReal \<times> BoutReal \<times> BoutReal \<times> BoutReal \<times> BoutReal \<times> BoutReal"


definition con_at :: "Coordinates \<Rightarrow> ind \<Rightarrow> metric6" where
  "con_at c p = (g11 c p, g22 c p, g33 c p, g12 c p, g13 c p, g23 c p)"

definition cov_at :: "Coordinates \<Rightarrow> ind \<Rightarrow> metric6" where
  "cov_at c p = (g_11 c p, g_22 c p, g_33 c p, g_12 c p, g_13 c p, g_23 c p)"

definition inv6 :: "metric6 \<Rightarrow> metric6 option" where
  "inv6 t = (case t of (c11, c22, c33, c12, c13, c23) \<Rightarrow>
     map_option (\<lambda>a. (a ! 0 ! 0, a ! 1 ! 1, a ! 2 ! 2, a ! 0 ! 1, a ! 0 ! 2, a ! 1 ! 2))
       (invert3x3 (metric_matrix c11 c22 c33 c12 c13 c23)))"

definition set_cov :: "Coordinates \<Rightarrow> ind \<Rightarrow> metric6 \<Rightarrow> Coordinates" where
  "set_cov c p t = (case t of (t11, t22, t33, t12, t13, t23) \<Rightarrow>
     c\<lparr>g_11 := (g_11 c)(p := t11), g_22 := (g_22 c)(p := t22), g_33 := (g_33 c)(p := t33),
       g_12 := (g_12 c)(p := t12), g_13 := (g_13 c)(p := t13), g_23 := (g_23 c)(p := t23)\<rparr>)"

definition set_con :: "Coordinates \<Rightarrow> ind \<Rightarrow> metric6 \<Rightarrow> Coordinates" where
  "set_con c p t = (case t of (t11, t22, t33, t12, t13, t23) \<Rightarrow>
     c\<lparr>g11 := (g11 c)(p := t11), g22 := (g22 c)(p := t22), g33 := (g33 c)(p := t33),
       g12 := (g12 c)(p := t12), g13 := (g13 c)(p := t13), g23 := (g23 c)(p := t23)\<rparr>)"




section \<open>Derivatives at the object's location\<close>

text \<open>
  Field arithmetic between a \<open>Field2D\<close> and a field of the \<open>Coordinates\<close> object. The
  container's operators are not under src/; the result carries the tag of the tagged
  operand.
\<close>

definition fdiv :: "Field2D \<Rightarrow> grid \<Rightarrow> Field2D" where
  "fdiv f g = f\<lparr>fvals := fvals f / g\<rparr>"

definition fmul :: "grid \<Rightarrow> Field2D \<Rightarrow> Field2D" where
  "fmul g f = f\<lparr>fvals := g * fvals f\<rparr>"

text \<open>\<open>Coordinates::DDX\<close>, \<open>DDY\<close>, \<open>DDZ\<close> on a \<open>Field2D\<close>.\<close>

definition DDX :: "Mesh \<Rightarrow> Coordinates \<Rightarrow> Field2D \<Rightarrow> CELL_LOC \<Rightarrow> BoutException + Field2D" where
  "DDX m c f loc =
     (if location c = loc \<or> loc = CELL_DEFAULT
      then Inr (fdiv (indexDDX m f loc) (dx c))
      else Inl (AssertFailed ''location == loc || loc == CELL_DEFAULT''))"

definition DDY :: "Mesh \<Rightarrow> Coordinates \<Rightarrow> Field2D \<Rightarrow> CELL_LOC \<Rightarrow> BoutException + Field2D" where
  "DDY m c f loc =
     (if location c = loc \<or> loc = CELL_DEFAULT
      then Inr (fdiv (indexDDY m f loc) (dy c))
      else Inl (AssertFailed ''location == loc || loc == CELL_DEFAULT''))"

definition DDZ :: "Mesh \<Rightarrow> Coordinates \<Rightarrow> Field2D \<Rightarrow> CELL_LOC \<Rightarrow> BoutException + Field2D" where
  "DDZ m c f loc =
     (if location c = loc \<or> loc = CELL_DEFAULT
      then Inr \<lparr>fvals = scalar (Fin 0), floc = location c\<rparr>
      else Inl (AssertFailed ''location == loc || loc == CELL_DEFAULT''))"

text \<open>
  Inside \<open>Coordinates::geometry\<close> the three derivatives are called on fields of the object
  itself with the default arguments, so with \<open>loc = CELL_DEFAULT\<close>: the assertion holds
  and the call returns. \<open>ddx\<close>, \<open>ddy\<close>, \<open>ddz\<close> are the data of these calls.
\<close>

definition ddx :: "Mesh \<Rightarrow> Coordinates \<Rightarrow> grid \<Rightarrow> grid" where
  "ddx m c f = fvals (fdiv (indexDDX m \<lparr>fvals = f, floc = location c\<rparr> CELL_DEFAULT) (dx c))"

definition ddy :: "Mesh \<Rightarrow> Coordinates \<Rightarrow> grid \<Rightarrow> grid" where
  "ddy m c f = fvals (fdiv (indexDDY m \<lparr>fvals = f, floc = location c\<rparr> CELL_DEFAULT) (dy c))"

definition ddz :: "Mesh \<Rightarrow> Coordinates \<Rightarrow> grid \<Rightarrow> grid" where
  "ddz m c f = scalar (Fin 0)"

section \<open>Christoffel symbols\<close>

text \<open>
  The assignments of \<open>Coordinates::geometry\<close> to the 18 connection coefficients and the
  3 contracted terms, in the source's order and with the source's operands. No right-hand
  side reads a field assigned here, so the assignments are one record update.
  \<open>half\<close> is the literal \<open>0.5\<close>.
\<close>

definition christoffel :: "Mesh \<Rightarrow> Coordinates \<Rightarrow> Coordinates" where
  "christoffel m c =
     (let DDX = ddx m c; DDY = ddy m c; DDZ = ddz m c; half = scalar (Fin (1 / 2)) in
      c\<lparr>G1_11 := half * g11 c * DDX (g_11 c) + g12 c * (DDX (g_12 c) - half * DDY (g_11 c))
                  + g13 c * (DDX (g_13 c) - half * DDZ (g_11 c)),
        G1_22 := g11 c * (DDY (g_12 c) - half * DDX (g_22 c)) + half * g12 c * DDY (g_22 c)
                  + g13 c * (DDY (g_23 c) - half * DDZ (g_22 c)),
        G1_33 := g11 c * (DDZ (g_13 c) - half * DDX (g_33 c))
                  + g12 c * (DDZ (g_23 c) - half * DDY (g_33 c)) + half * g13 c * DDZ (g_33 c),
        G1_12 := half * g11 c * DDY (g_11 c) + half * g12 c * DDX (g_22 c)
                  + half * g13 c * (DDY (g_13 c) + DDX (g_23 c) - DDZ (g_12 c)),
        G1_13 := half * g11 c * DDZ (g_11 c)
                  + half * g12 c * (DDZ (g_12 c) + DDX (g_23 c) - DDY (g_13 c))
                  + half * g13 c * DDX (g_33 c),
        G1_23 := half * g11 c * (DDZ (g_12 c) + DDY (g_13 c) - DDX (g_23 c))
                  + half * g12 c * (DDZ (g_22 c) + DDY (g_23 c) - DDY (g_23 c))
                  + half * g13 c * DDY (g_33 c),
        G2_11 := half * g12 c * DDX (g_11 c) + g22 c * (DDX (g_12 c) - half * DDY (g_11 c))
                  + g23 c * (DDX (g_13 c) - half * DDZ (g_11 c)),
        G2_22 := g12 c * (DDY (g_12 c) - half * DDX (g_22 c)) + half * g22 c * DDY (g_22 c)
                  + g23 c * (DDY (g23 c) - half * DDZ (g_22 c)),
        G2_33 := g12 c * (DDZ (g_13 c) - half * DDX (g_33 c))
                  + g22 c * (DDZ (g_23 c) - half * DDY (g_33 c)) + half * g23 c * DDZ (g_33 c),
        G2_12 := half * g12 c * DDY (g_11 c) + half * g22 c * DDX (g_22 c)
                  + half * g23 c * (DDY (g_13 c) + DDX (g_23 c) - DDZ (g_12 c)),
        G2_13 := half * g12 c * (DDZ (g_11 c) + DDX (g_13 c) - DDX (g_13 c))
                  + half * g22 c * (DDZ (g_12 c) + DDX (g_23 c) - DDY (g_13 c))
                  + half * g23 c * DDX (g_33 c),
        G2_23 := half * g12 c * (DDZ (g_12 c) + DDY (g_13 c) - DDX (g_23 c))
                  + half * g22 c * DDZ (g_22 c) + half * g23 c * DDY (g_33 c),
        G3_11 := half * g13 c * DDX (g_11 c) + g23 c * (DDX (g_12 c) - half * DDY (g_11 c))
                  + g33 c * (DDX (g_13 c) - half * DDZ (g_11 c)),
        G3_22 := g13 c * (DDY (g_12 c) - half * DDX (g_22 c)) + half * g23 c * DDY (g_22 c)
                  + g33 c * (DDY (g_23 c) - half * DDZ (g_22 c)),
        G3_33 := g13 c * (DDZ (g_13 c) - half * DDX (g_33 c))
                  + g23 c * (DDZ (g_23 c) - half * DDY (g_33 c)) + half * g33 c * DDZ (g_33 c),
        G3_12 := half * g13 c * DDY (g_11 c) + half * g23 c * DDX (g_22 c)
                  + half * g33 c * (DDY (g_13 c) + DDX (g_23 c) - DDZ (g_12 c)),
        G3_13 := half * g13 c * DDZ (g_11 c)
                  + half * g23 c * (DDZ (g_12 c) + DDX (g_23 c) - DDY (g_13 c))
                  + half * g33 c * DDX (g_33 c),
        G3_23 := half * g13 c * (DDZ (g_12 c) + DDY (g_13 c) - DDX (g_23 c))
                  + half * g23 c * DDZ (g_22 c) + half * g33 c * DDY (g_33 c),
        G1 := (DDX (J c * g11 c) + DDY (J c * g12 c) + DDZ (J c * g13 c)) / J c,
        G2 := (DDX (J c * g12 c) + DDY (J c * g22 c) + DDZ (J c * g23 c)) / J c,
        G3 := (DDX (J c * g13 c) + DDY (J c * g23 c) + DDZ (J c * g33 c)) / J c\<rparr>)"

text \<open>\<open>localmesh->communicate(com)\<close>: one halo exchange of the 21 fields.\<close>

definition communicate_christoffel :: "Mesh \<Rightarrow> Coordinates \<Rightarrow> Coordinates" where
  "communicate_christoffel m c =
     c\<lparr>G1_11 := communicate m (G1_11 c), G1_22 := communicate m (G1_22 c),
       G1_33 := communicate m (G1_33 c), G1_12 := communicate m (G1_12 c),
       G1_13 := communicate m (G1_13 c), G1_23 := communicate m (G1_23 c),
       G2_11 := communicate m (G2_11 c), G2_22 := communicate m (G2_22 c),
       G2_33 := communicate m (G2_33 c), G2_12 := communicate m (G2_12 c),
       G2_13 := communicate m (G2_13 c), G2_23 := communicate m (G2_23 c),
       G3_11 := communicate m (G3_11 c), G3_22 := communicate m (G3_22 c),
       G3_33 := communicate m (G3_33 c), G3_12 := communicate m (G3_12 c),
       G3_13 := communicate m (G3_13 c), G3_23 := communicate m (G3_23 c),
       G1 := communicate m (G1 c), G2 := communicate m (G2 c), G3 := communicate m (G3 c)\<rparr>"

text \<open>
  The corrections for non-uniform meshes: \<open>localmesh->get(d2x, "d2x")\<close> returns nonzero
  when the grid file has no \<open>d2x\<close> (\<open>source_d2x m = None\<close>).
\<close>

definition non_uniform_correction :: "Mesh \<Rightarrow> Coordinates \<Rightarrow> Coordinates" where
  "non_uniform_correction m c =
     (let c1 = (case source_d2x m of
                  None \<Rightarrow> c\<lparr>d1_dx := fvals (indexDDX m \<lparr>fvals = scalar (Fin 1) / dx c,
                                                        floc = location c\<rparr> CELL_DEFAULT)\<rparr>
                | Some d2x \<Rightarrow> c\<lparr>d1_dx := - d2x / (dx c * dx c)\<rparr>)
      in (case source_d2y m of
            None \<Rightarrow> c1\<lparr>d1_dy := fvals (indexDDY m \<lparr>fvals = scalar (Fin 1) / dy c1,
                                                   floc = location c1\<rparr> CELL_DEFAULT)\<rparr>
          | Some d2y \<Rightarrow> c1\<lparr>d1_dy := - d2y / (dy c1 * dy c1)\<rparr>))"

text \<open>
  \<open>Coordinates::geometry\<close>: the checks, each a \<open>throw\<close>, then the assignments. Reading the
  option \<open>non_uniform\<close> and the progress messages change nothing modelled here.
\<close>

definition geometry :: "Mesh \<Rightarrow> Coordinates \<Rightarrow> BoutException + Coordinates" where
  "geometry m c =
     (if min_f m \<bar>dx c\<bar> < Fin (1 / 10 ^ 8)
      then Inl (BoutException ''dx magnitude less than 1e-8'')
      else if min_f m \<bar>dy c\<bar> < Fin (1 / 10 ^ 8)
      then Inl (BoutException ''dy magnitude less than 1e-8'')
      else if \<bar>dz c\<bar> < Fin (1 / 10 ^ 8)
      then Inl (BoutException ''dz magnitude less than 1e-8'')
      else if \<not> finite_f m (g11 c) RGN_NOBNDRY \<or> \<not> finite_f m (g22 c) RGN_NOBNDRY
              \<or> \<not> finite_f m (g33 c) RGN_NOBNDRY
      then Inl (BoutException ''ERROR: Diagonal metrics are not finite!'')
      else if min_f m (g11 c) \<le> Fin 0 \<or> min_f m (g22 c) \<le> Fin 0 \<or> min_f m (g33 c) \<le> Fin 0
      then Inl (BoutException ''ERROR: Diagonal metrics are negative!'')
      else if \<not> finite_f m (g12 c) RGN_NOBNDRY \<or> \<not> finite_f m (g13 c) RGN_NOBNDRY
              \<or> \<not> finite_f m (g23 c) RGN_NOBNDRY
      then Inl (BoutException ''ERROR: Off-diagonal metrics are not finite!'')
      else if \<not> finite_f m (g_11 c) RGN_NOBNDRY \<or> \<not> finite_f m (g_22 c) RGN_NOBNDRY
              \<or> \<not> finite_f m (g_33 c) RGN_NOBNDRY
      then Inl (BoutException ''ERROR: Diagonal g_ij metrics are not finite!'')
      else if min_f m (g_11 c) \<le> Fin 0 \<or> min_f m (g_22 c) \<le> Fin 0 \<or> min_f m (g_33 c) \<le> Fin 0
      then Inl (BoutException ''ERROR: Diagonal g_ij metrics are negative!'')
      else if \<not> finite_f m (g_12 c) RGN_NOBNDRY \<or> \<not> finite_f m (g_13 c) RGN_NOBNDRY
              \<or> \<not> finite_f m (g_23 c) RGN_NOBNDRY
      then Inl (BoutException ''ERROR: Off-diagonal g_ij metrics are not finite!'')
      else Inr (non_uniform_correction m (communicate_christoffel m (christoffel m c))))"

section \<open>Parallel operators\<close>

text \<open>\<open>Coordinates::Grad_par\<close> on a \<open>Field2D\<close>.\<close>

definition Grad_par :: "Mesh \<Rightarrow> Coordinates \<Rightarrow> Field2D \<Rightarrow> CELL_LOC \<Rightarrow> BoutException + Field2D" where
  "Grad_par m c var outloc =
     (if location c = outloc \<or> (outloc = CELL_DEFAULT \<and> location c = floc var)
      then (case DDY m c var outloc of
              Inl e \<Rightarrow> Inl e
            | Inr r \<Rightarrow> Inr (fdiv r (sqrt_f (g_22 c))))
      else Inl (AssertFailed
        ''location == outloc || (outloc == CELL_DEFAULT && location == var.getLocation())''))"

text \<open>
  \<open>Coordinates::Div_par\<close> on a \<open>Field2D\<close>.

  Modelled from the spec: \<open>f.getCoordinates()\<close> is not under src/. Per the spec (4.8) and
  the comment at the call it is the Geometry at the location of \<open>f\<close>; \<open>coords\<close> is the
  mesh's Geometry for each location tag.
\<close>

definition Div_par ::
  "Mesh \<Rightarrow> (CELL_LOC \<Rightarrow> Coordinates) \<Rightarrow> Coordinates \<Rightarrow> Field2D \<Rightarrow> CELL_LOC
    \<Rightarrow> BoutException + Field2D" where
  "Div_par m coords c f outloc =
     (if location c = outloc \<or> outloc = CELL_DEFAULT
      then
        (let Bxy_floc = Bxy (coords (floc f)) in
         case Grad_par m c (fdiv f Bxy_floc) outloc of
           Inl e \<Rightarrow> Inl e
         | Inr r \<Rightarrow> Inr (fmul (Bxy c) r))
      else Inl (AssertFailed ''location == outloc || outloc == CELL_DEFAULT''))"

text \<open>A \<open>Field3D\<close> times or over a \<open>Field2D\<close>: pointwise, the same at every \<open>z\<close>.\<close>

definition div3 :: "grid3 \<Rightarrow> grid \<Rightarrow> grid3" where
  "div3 a b = (\<lambda>(x, y, z). a (x, y, z) / b (x, y))"

definition mul3 :: "grid \<Rightarrow> grid3 \<Rightarrow> grid3" where
  "mul3 b a = (\<lambda>(x, y, z). b (x, y) * a (x, y, z))"

text \<open>\<open>f / Bxy_floc\<close> as the source forms it: a new field, without parallel slices.\<close>

definition fdiv3 :: "Field3D \<Rightarrow> grid \<Rightarrow> Field3D" where
  "fdiv3 f g = \<lparr>fvals3 = div3 (fvals3 f) g, floc3 = floc3 f, yupydown = NoYupYdown\<rparr>"

definition fmul3 :: "grid \<Rightarrow> Field3D \<Rightarrow> Field3D" where
  "fmul3 g f = \<lparr>fvals3 = mul3 g (fvals3 f), floc3 = floc3 f, yupydown = NoYupYdown\<rparr>"

text \<open>\<open>Coordinates::Grad_par\<close> on a \<open>Field3D\<close>.\<close>

definition Grad_par_3D :: "Mesh \<Rightarrow> Coordinates \<Rightarrow> Field3D \<Rightarrow> CELL_LOC \<Rightarrow> BoutException + Field3D" where
  "Grad_par_3D m c var outloc =
     (if location c = outloc \<or> outloc = CELL_DEFAULT
      then Inr (fdiv3 (DDY_3D m var outloc) (sqrt_f (g_22 c)))
      else Inl (AssertFailed ''location == outloc || outloc == CELL_DEFAULT''))"

text \<open>\<open>Coordinates::Div_par\<close> on a \<open>Field3D\<close>, with its three cases.\<close>

definition Div_par_3D ::
  "Mesh \<Rightarrow> (CELL_LOC \<Rightarrow> Coordinates) \<Rightarrow> Coordinates \<Rightarrow> Field3D \<Rightarrow> CELL_LOC
    \<Rightarrow> BoutException + Field3D" where
  "Div_par_3D m coords c f outloc =
     (if location c = outloc \<or> outloc = CELL_DEFAULT
      then
        (let Bxy_floc = Bxy (coords (floc3 f)) in
         if yupydown f = NoYupYdown
         then (case Grad_par_3D m c (fdiv3 f Bxy_floc) outloc of
                 Inl e \<Rightarrow> Inl e
               | Inr r \<Rightarrow> Inr (fmul3 (Bxy c) r))
         else
           (let f_B = fdiv3 f Bxy_floc;
                f_B1 = (case yupydown f of
                          SameField \<Rightarrow> f_B\<lparr>yupydown := SameField\<rparr>
                        | Distinct u d \<Rightarrow>
                            f_B\<lparr>yupydown := Distinct (div3 u Bxy_floc) (div3 d Bxy_floc)\<rparr>
                        | NoYupYdown \<Rightarrow> f_B)
            in case Grad_par_3D m c f_B1 outloc of
                 Inl e \<Rightarrow> Inl e
               | Inr r \<Rightarrow> Inr (fmul3 (Bxy c) r)))
      else Inl (AssertFailed ''location == outloc || outloc == CELL_DEFAULT''))"

text \<open>
  The quotient the claim speaks of for a \<open>Field3D\<close>: \<open>f\<close> divided by \<open>Bxy_floc\<close>, its
  parallel slices divided with it.
\<close>

definition quotient_3D :: "Field3D \<Rightarrow> grid \<Rightarrow> Field3D" where
  "quotient_3D f g =
     \<lparr>fvals3 = div3 (fvals3 f) g, floc3 = floc3 f,
      yupydown = (case yupydown f of
                    NoYupYdown \<Rightarrow> NoYupYdown
                  | SameField \<Rightarrow> SameField
                  | Distinct u d \<Rightarrow> Distinct (div3 u g) (div3 d g))\<rparr>"

section \<open>The standard Christoffel symbols\<close>

text \<open>
  The spec's words for the connection coefficients: the second-kind Christoffel symbol
  \<open>\<Gamma>^k_ij = 1/2 g^kl (d_i g_lj + d_j g_li - d_l g_ij)\<close>, summed over \<open>l\<close>, every
  derivative taken of a covariant component. \<open>con c k l\<close> and \<open>cov c i j\<close> are the
  components \<open>g^kl\<close> and \<open>g_ij\<close> by index (1 to 3), \<open>partial m c i\<close> is the derivative
  along the \<open>i\<close>-th direction as the object computes it.
\<close>

definition con :: "Coordinates \<Rightarrow> nat \<Rightarrow> nat \<Rightarrow> grid" where
  "con c k l = [[g11 c, g12 c, g13 c], [g12 c, g22 c, g23 c], [g13 c, g23 c, g33 c]] ! (k - 1) ! (l - 1)"

definition cov :: "Coordinates \<Rightarrow> nat \<Rightarrow> nat \<Rightarrow> grid" where
  "cov c i j = [[g_11 c, g_12 c, g_13 c], [g_12 c, g_22 c, g_23 c], [g_13 c, g_23 c, g_33 c]] ! (i - 1) ! (j - 1)"

definition partial :: "Mesh \<Rightarrow> Coordinates \<Rightarrow> nat \<Rightarrow> grid \<Rightarrow> grid" where
  "partial m c i f = [ddx m c f, ddy m c f, ddz m c f] ! (i - 1)"

definition christoffel_term :: "Mesh \<Rightarrow> Coordinates \<Rightarrow> nat \<Rightarrow> nat \<Rightarrow> nat \<Rightarrow> nat \<Rightarrow> grid" where
  "christoffel_term m c k i j l =
     con c k l * (partial m c i (cov c l j) + partial m c j (cov c l i) - partial m c l (cov c i j))"

definition christoffel_std :: "Mesh \<Rightarrow> Coordinates \<Rightarrow> nat \<Rightarrow> nat \<Rightarrow> nat \<Rightarrow> grid" where
  "christoffel_std m c k i j =
     scalar (Fin (1 / 2))
       * (christoffel_term m c k i j 1 + christoffel_term m c k i j 2 + christoffel_term m c k i j 3)"

text \<open>
  The metric and the derivatives of the covariant components are finite at \<open>p\<close>
  (the derivative along \<open>z\<close> of a \<open>Field2D\<close> is 0).
\<close>

definition finite_metric_at :: "Mesh \<Rightarrow> Coordinates \<Rightarrow> ind \<Rightarrow> bool" where
  "finite_metric_at m c p \<longleftrightarrow>
     list_all (\<lambda>f. isfinite (f p))
       [g11 c, g22 c, g33 c, g12 c, g13 c, g23 c,
        ddx m c (g_11 c), ddx m c (g_22 c), ddx m c (g_33 c),
        ddx m c (g_12 c), ddx m c (g_13 c), ddx m c (g_23 c),
        ddy m c (g_11 c), ddy m c (g_22 c), ddy m c (g_33 c),
        ddy m c (g_12 c), ddy m c (g_13 c), ddy m c (g_23 c)]"

text \<open>Flat space: both representations of the metric are the identity everywhere.\<close>

definition flat_metric :: "Coordinates \<Rightarrow> bool" where
  "flat_metric c \<longleftrightarrow>
     g11 c = scalar (Fin 1) \<and> g22 c = scalar (Fin 1) \<and> g33 c = scalar (Fin 1) \<and>
     g12 c = scalar (Fin 0) \<and> g13 c = scalar (Fin 0) \<and> g23 c = scalar (Fin 0) \<and>
     g_11 c = scalar (Fin 1) \<and> g_22 c = scalar (Fin 1) \<and> g_33 c = scalar (Fin 1) \<and>
     g_12 c = scalar (Fin 0) \<and> g_13 c = scalar (Fin 0) \<and> g_23 c = scalar (Fin 0)"

definition all_connection_zero :: "Coordinates \<Rightarrow> bool" where
  "all_connection_zero c \<longleftrightarrow>
     G1_11 c = scalar (Fin 0) \<and> G1_22 c = scalar (Fin 0) \<and> G1_33 c = scalar (Fin 0) \<and>
     G1_12 c = scalar (Fin 0) \<and> G1_13 c = scalar (Fin 0) \<and> G1_23 c = scalar (Fin 0) \<and>
     G2_11 c = scalar (Fin 0) \<and> G2_22 c = scalar (Fin 0) \<and> G2_33 c = scalar (Fin 0) \<and>
     G2_12 c = scalar (Fin 0) \<and> G2_13 c = scalar (Fin 0) \<and> G2_23 c = scalar (Fin 0) \<and>
     G3_11 c = scalar (Fin 0) \<and> G3_22 c = scalar (Fin 0) \<and> G3_33 c = scalar (Fin 0) \<and>
     G3_12 c = scalar (Fin 0) \<and> G3_13 c = scalar (Fin 0) \<and> G3_23 c = scalar (Fin 0) \<and>
     G1 c = scalar (Fin 0) \<and> G2 c = scalar (Fin 0) \<and> G3 c = scalar (Fin 0)"

section \<open>Fields in memory\<close>

text \<open>
  A \<open>Field2D\<close> object refers to a block of data that copies of the object share until one
  of them is written to after \<open>allocate()\<close>. Where the source relies on this (the function
  \<open>interpolateAndExtrapolate\<close> says so in a comment) the model is a store of data blocks:
  a \<open>Field2D_ref\<close> is the object, \<open>ref_data\<close> the block it refers to, \<open>ref_loc\<close> its
  location tag. \<open>nxt\<close> is the first block not yet handed out.
\<close>

record Heap =
  blocks :: "nat \<Rightarrow> grid"
  nxt :: nat

record Field2D_ref =
  ref_data :: nat
  ref_loc :: CELL_LOC

text \<open>\<open>f(x, y)\<close> read, and \<open>f(x, y) = v\<close>.\<close>

definition rd :: "Heap \<Rightarrow> Field2D_ref \<Rightarrow> ind \<Rightarrow> BoutReal" where
  "rd h f p = blocks h (ref_data f) p"

definition wr :: "Field2D_ref \<Rightarrow> ind \<Rightarrow> BoutReal \<Rightarrow> Heap \<Rightarrow> Heap" where
  "wr f p v h = h\<lparr>blocks := (blocks h)(ref_data f := (blocks h (ref_data f))(p := v))\<rparr>"

definition new_block :: "Heap \<Rightarrow> grid \<Rightarrow> Heap \<times> nat" where
  "new_block h g = (h\<lparr>blocks := (blocks h)(nxt h := g), nxt := Suc (nxt h)\<rparr>, nxt h)"

text \<open>
  Modelled from the spec: \<open>Field2D::allocate\<close> is not under src/. Per the comments at its
  two calls it ensures the data of the object is unique, shared with no other object: the
  object gets a block of its own holding the same values.
\<close>

definition allocate :: "Heap \<Rightarrow> Field2D_ref \<Rightarrow> Heap \<times> Field2D_ref" where
  "allocate h f = (let (h1, a) = new_block h (blocks h (ref_data f)) in (h1, f\<lparr>ref_data := a\<rparr>))"

text \<open>
  \<open>interp_to(f, location, RGN_NOBNDRY)\<close> in memory: where no interpolation is needed the
  result is \<open>f\<close>, data shared; otherwise a field with a block of its own.
\<close>

definition interp_to_ref :: "Mesh \<Rightarrow> Heap \<Rightarrow> Field2D_ref \<Rightarrow> CELL_LOC \<Rightarrow> Heap \<times> Field2D_ref" where
  "interp_to_ref m h f loc =
     (case interp_to m \<lparr>fvals = blocks h (ref_data f), floc = ref_loc f\<rparr> loc of
        None \<Rightarrow> (h, f)
      | Some r \<Rightarrow> (let (h1, a) = new_block h (fvals r) in (h1, \<lparr>ref_data = a, ref_loc = floc r\<rparr>)))"

text \<open>\<open>localmesh->communicate(f)\<close>: the halo exchange rewrites the block of \<open>f\<close>.\<close>

definition communicate_ref :: "Mesh \<Rightarrow> Field2D_ref \<Rightarrow> Heap \<Rightarrow> Heap" where
  "communicate_ref m f h =
     h\<lparr>blocks := (blocks h)(ref_data f := communicate m (blocks h (ref_data f)))\<rparr>"

text \<open>A loop whose body can throw: the first error ends it.\<close>

fun foldE :: "('a \<Rightarrow> 's \<Rightarrow> 'e + 's) \<Rightarrow> 'a list \<Rightarrow> 's \<Rightarrow> 'e + 's" where
  "foldE f [] s = Inr s"
| "foldE f (x # xs) s = (case f x s of Inl e \<Rightarrow> Inl e | Inr s1 \<Rightarrow> foldE f xs s1)"

section \<open>interpolateAndExtrapolate\<close>

definition extrap_start_of :: "CELL_LOC \<Rightarrow> BoundaryRegion \<Rightarrow> int" where
  "extrap_start_of loc bndry =
     (if loc = CELL_XLOW \<and> 0 < bx bndry then 1
      else if loc = CELL_YLOW \<and> 0 < by' bndry then 1
      else 0)"

text \<open>
  The two loops \<open>for(int i=extrap_start;i<bndry->width;i++)\<close> at the boundary point
  \<open>(x, y)\<close>; the list holds the values \<open>i\<close> takes.
\<close>

fun extrapolate_cubic :: "Field2D_ref \<Rightarrow> BoundaryRegion \<Rightarrow> ind \<Rightarrow> int list \<Rightarrow> Heap \<Rightarrow> Heap" where
  "extrapolate_cubic result bndry (x, y) [] h = h"
| "extrapolate_cubic result bndry (x, y) (i # is) h =
     (let xi = x + i * bx bndry; yi = y + i * by' bndry in
      extrapolate_cubic result bndry (x, y) is
        (wr result (xi, yi)
           (Fin 3 * rd h result (xi - bx bndry, yi - by' bndry)
              - Fin 3 * rd h result (xi - 2 * bx bndry, yi - 2 * by' bndry)
              + rd h result (xi - 3 * bx bndry, yi - 3 * by' bndry)) h))"

fun extrapolate_const :: "Field2D_ref \<Rightarrow> BoundaryRegion \<Rightarrow> ind \<Rightarrow> int list \<Rightarrow> Heap \<Rightarrow> Heap" where
  "extrapolate_const result bndry (x, y) [] h = h"
| "extrapolate_const result bndry (x, y) (i # is) h =
     extrapolate_const result bndry (x, y) is
       (wr result (x + i * bx bndry, y + i * by' bndry)
          (rd h result (x - bx bndry, y - by' bndry)) h)"

text \<open>The messages of the two exceptions thrown in the loop over the boundary points.\<close>

definition not_enough_x :: string where
  "not_enough_x =
     ''Not enough points in the x-direction on this processor for extrapolation '' @
     ''needed to use staggered grids. Increase number of x-guard cells MXG or '' @
     ''decrease number of processors in the x-direction NXPE.''"

definition not_enough_y :: string where
  "not_enough_y =
     ''Not enough points in the y-direction on this processor for extrapolation '' @
     ''needed to use staggered grids. Increase number of y-guard cells MYG or '' @
     ''decrease number of processors in the y-direction NYPE.''"

text \<open>The value interpolated for the boundary point that \<open>interp_to\<close> misses.\<close>

definition interp_bndry_point :: "Heap \<Rightarrow> Field2D_ref \<Rightarrow> BoundaryRegion \<Rightarrow> ind \<Rightarrow> BoutReal" where
  "interp_bndry_point h f bndry p =
     (case p of (x, y) \<Rightarrow>
        (Fin 9 * (rd h f (x - bx bndry, y - by' bndry) + rd h f (x, y))
           - rd h f (x - 2 * bx bndry, y - 2 * by' bndry)
           - rd h f (x + bx bndry, y + by' bndry)) / Fin 16)"

text \<open>
  The body of \<open>for(bndry->first(); !bndry->isDone(); bndry->next1d())\<close> at one boundary
  point.
\<close>

definition bndry_point ::
  "Mesh \<Rightarrow> Field2D_ref \<Rightarrow> Field2D_ref \<Rightarrow> BoundaryRegion \<Rightarrow> int \<Rightarrow> ind \<Rightarrow> Heap
    \<Rightarrow> BoutException + Heap" where
  "bndry_point m f result bndry extrap_start p h =
     (let h1 = (if 0 < extrap_start then wr result p (interp_bndry_point h f bndry p) h else h) in
      if (bx bndry \<noteq> 0 \<and> 3 \<le> GlobalNx m - 2 * width bndry)
         \<or> (by' bndry \<noteq> 0 \<and> 3 \<le> GlobalNy m - 2 * width bndry)
      then
        if bx bndry \<noteq> 0 \<and> LocalNx m = 1 \<and> width bndry = 1
        then Inl (BoutException not_enough_x)
        else if by' bndry \<noteq> 0 \<and> LocalNy m = 1 \<and> width bndry = 1
        then Inl (BoutException not_enough_y)
        else Inr (extrapolate_cubic result bndry p [extrap_start .. width bndry - 1] h1)
      else Inr (extrapolate_const result bndry p [extrap_start .. width bndry - 1] h1))"

text \<open>The loop over the boundary regions and their points.\<close>

definition extrapolate_boundaries ::
  "Mesh \<Rightarrow> Field2D_ref \<Rightarrow> Field2D_ref \<Rightarrow> CELL_LOC \<Rightarrow> Heap \<Rightarrow> BoutException + Heap" where
  "extrapolate_boundaries m f result loc h =
     foldE (\<lambda>bndry. foldE (bndry_point m f result bndry (extrap_start_of loc bndry))
                       (bpoints bndry))
       (getBoundaries m) h"

text \<open>
  The body of the loop over \<open>i\<close> under \<open>if (extrap_at_branch_cut)\<close>: the lower processor
  boundary (\<open>j\<close> from \<open>ystart-1\<close> down to 1), then the upper one.
\<close>

definition branch_cut_column ::
  "Mesh \<Rightarrow> Field2D_ref \<Rightarrow> Field2D_ref \<Rightarrow> CELL_LOC \<Rightarrow> int \<Rightarrow> Heap \<Rightarrow> Heap" where
  "branch_cut_column m f result loc i h =
     (let firstjup = (if loc = CELL_YLOW then yend m + 1 else yend m);
          h1 = (if hasBranchCutDown m i
                then fold (\<lambda>j h. wr result (i, j)
                             (Fin 3 * rd h result (i, j + 1) - Fin 3 * rd h result (i, j + 2)
                                + rd h result (i, j + 3)) h)
                       (rev [1 .. ystart m - 1]) h
                else h)
      in if hasBranchCutUp m i
         then
           (let h2 = (if loc = CELL_YLOW
                      then (let j = yend m in
                            wr result (i, j)
                              ((Fin 9 * (rd h1 f (i, j - 1) + rd h1 f (i, j)) - rd h1 f (i, j - 2)
                                  - rd h1 f (i, j + 1)) / Fin 16) h1)
                      else h1)
            in fold (\<lambda>j h. wr result (i, j)
                       (Fin 3 * rd h result (i, j - 1) - Fin 3 * rd h result (i, j - 2)
                          + rd h result (i, j - 3)) h)
                 [firstjup .. LocalNy m - 1] h2)
         else h1)"

text \<open>The loops that set the corner guard cells.\<close>

definition corner_guard_cells :: "Mesh \<Rightarrow> Field2D_ref \<Rightarrow> Heap \<Rightarrow> Heap" where
  "corner_guard_cells m result h =
     fold (\<lambda>(i, j) h.
             wr result (LocalNx m - 1 - i, LocalNy m - 1 - j) BoutNaN
               (wr result (LocalNx m - 1 - i, j) BoutNaN
                  (wr result (i, LocalNy m - 1 - j) BoutNaN
                     (wr result (i, j) BoutNaN h))))
       (List.product [0 .. xstart m - 1] [0 .. ystart m - 1]) h"

text \<open>
  \<open>interpolateAndExtrapolate(f, location, extrap_at_branch_cut)\<close> (\<open>loc\<close> is its \<open>location\<close>): the store before the
  call and the object \<open>f\<close> go in, the store after it and the object returned come out.
\<close>

definition interpolateAndExtrapolate ::
  "Mesh \<Rightarrow> Heap \<Rightarrow> Field2D_ref \<Rightarrow> CELL_LOC \<Rightarrow> bool \<Rightarrow> BoutException + Heap \<times> Field2D_ref" where
  "interpolateAndExtrapolate m h f loc extrap_at_branch_cut =
     (let (h1, result0) = interp_to_ref m h f loc;
          (h2, result) = allocate h1 result0;
          h3 = communicate_ref m result h2
      in case extrapolate_boundaries m f result loc h3 of
           Inl e \<Rightarrow> Inl e
         | Inr h4 \<Rightarrow>
             (let h5 = (if extrap_at_branch_cut
                        then fold (branch_cut_column m f result loc) [xstart m .. xend m] h4
                        else h4)
              in Inr (corner_guard_cells m result h5, result)))"

section \<open>interpXLOWToXYCorner\<close>

text \<open>
  The first loop over the boundaries, for one outer x-boundary: the boundary points are
  shifted one cell inwards into \<open>temp_for_xguards\<close>, then its y-guard cells are set by
  extrapolation.
\<close>

definition shift_outer_x :: "Mesh \<Rightarrow> Field2D_ref \<Rightarrow> Field2D_ref \<Rightarrow> BoundaryRegion \<Rightarrow> Heap \<Rightarrow> Heap" where
  "shift_outer_x m result temp_for_xguards bndry h =
     (if 0 < bx bndry
      then
        (let h1 = fold (\<lambda>(x, y) h.
                     fold (\<lambda>i h. wr temp_for_xguards (i - 1, y) (rd h result (i, y)) h)
                       [xend m - 1 .. LocalNx m - 1] h)
                   (bpoints bndry) h
         in fold (\<lambda>i h.
              fold (\<lambda>j h. wr temp_for_xguards (i, j)
                      (Fin 3 * rd h temp_for_xguards (i, j - 1)
                         - Fin 3 * rd h temp_for_xguards (i, j - 2)
                         + rd h temp_for_xguards (i, j - 3)) h)
                [yend m + 1 .. LocalNy m - 1]
                (fold (\<lambda>j h. wr temp_for_xguards (i, j)
                         (Fin 3 * rd h temp_for_xguards (i, j + 1)
                            - Fin 3 * rd h temp_for_xguards (i, j + 2)
                            + rd h temp_for_xguards (i, j + 3)) h)
                   (rev [0 .. ystart m - 1]) h))
              [xend m - 2 .. xend m] h1)
      else h)"

text \<open>The last loop: the outer x-boundary points are copied back into the guard cells.\<close>

definition copy_outer_x :: "Mesh \<Rightarrow> Field2D_ref \<Rightarrow> Field2D_ref \<Rightarrow> BoundaryRegion \<Rightarrow> Heap \<Rightarrow> Heap" where
  "copy_outer_x m result temp_for_xguards bndry h =
     (if 0 < bx bndry
      then fold (\<lambda>(x, y) h.
              fold (\<lambda>i h. wr result (i, y) (rd h temp_for_xguards (i - 1, y)) h)
                [xend m - 1 .. LocalNx m - 1] h)
             (bpoints bndry) h
      else h)"

text \<open>
  \<open>interpXLOWToXYCorner(f, extrap_at_branch_cut)\<close>. \<open>Field2D temp_for_xguards(0., localmesh)\<close>
  is a new field that holds 0 everywhere, at \<open>CELL_CENTRE\<close>.
\<close>

definition interpXLOWToXYCorner ::
  "Mesh \<Rightarrow> Heap \<Rightarrow> Field2D_ref \<Rightarrow> bool \<Rightarrow> BoutException + Heap \<times> Field2D_ref" where
  "interpXLOWToXYCorner m h f extrap_at_branch_cut =
     (if \<not> (1 < xstart m \<and> 1 < ystart m)
      then Inl (AssertFailed ''localmesh->xstart > 1 && localmesh->ystart > 1'')
      else
        (let (h1, result) = allocate h f in
         if ref_loc result \<noteq> CELL_XLOW
         then Inl (AssertFailed ''result.getLocation() == CELL_XLOW'')
         else
           (let (h2, a) = new_block h1 (scalar (Fin 0));
                temp_for_xguards = \<lparr>ref_data = a, ref_loc = CELL_CENTRE\<rparr>;
                h3 = fold (shift_outer_x m result temp_for_xguards) (getBoundaries m) h2;
                h4 = communicate_ref m temp_for_xguards h3;
                result1 = result\<lparr>ref_loc := CELL_CENTRE\<rparr>;
                temp1 = temp_for_xguards\<lparr>ref_loc := CELL_CENTRE\<rparr>
            in case interpolateAndExtrapolate m h4 result1 CELL_YLOW extrap_at_branch_cut of
                 Inl e \<Rightarrow> Inl e
               | Inr (h5, result2) \<Rightarrow>
                   (case interpolateAndExtrapolate m h5 temp1 CELL_YLOW extrap_at_branch_cut of
                      Inl e \<Rightarrow> Inl e
                    | Inr (h6, temp2) \<Rightarrow>
                        Inr (fold (copy_outer_x m result2 temp2) (getBoundaries m) h6,
                             result2\<lparr>ref_loc := CELL_CENTRE\<rparr>)))))"

section \<open>The two functions on fields by value\<close>

text \<open>
  The builders hold their fields by value. A call on a field by value runs the function
  in a store that holds that field alone, in block 0, and reads the result out.
\<close>

definition heap_of :: "grid \<Rightarrow> Heap" where
  "heap_of g = \<lparr>blocks = (\<lambda>a. g), nxt = 1\<rparr>"

definition field_of :: "Heap \<times> Field2D_ref \<Rightarrow> Field2D" where
  "field_of hr = (case hr of (h, r) \<Rightarrow> \<lparr>fvals = blocks h (ref_data r), floc = ref_loc r\<rparr>)"

definition interpolateAndExtrapolate_val ::
  "Mesh \<Rightarrow> Field2D \<Rightarrow> CELL_LOC \<Rightarrow> bool \<Rightarrow> BoutException + Field2D" where
  "interpolateAndExtrapolate_val m f loc extrap_at_branch_cut =
     map_sum id field_of
       (interpolateAndExtrapolate m (heap_of (fvals f)) \<lparr>ref_data = 0, ref_loc = floc f\<rparr>
          loc extrap_at_branch_cut)"

definition interpXLOWToXYCorner_val :: "Mesh \<Rightarrow> Field2D \<Rightarrow> bool \<Rightarrow> BoutException + Field2D" where
  "interpXLOWToXYCorner_val m f extrap_at_branch_cut =
     map_sum id field_of
       (interpXLOWToXYCorner m (heap_of (fvals f)) \<lparr>ref_data = 0, ref_loc = floc f\<rparr>
          extrap_at_branch_cut)"

section \<open>Frames\<close>

text \<open>
  \<open>keeps a h h1\<close>: from the store \<open>h\<close> to the store \<open>h1\<close> no block was handed out and
  no block other than \<open>a\<close> was written.
\<close>

definition keeps :: "nat \<Rightarrow> Heap \<Rightarrow> Heap \<Rightarrow> bool" where
  "keeps a h h1 \<longleftrightarrow> nxt h1 = nxt h \<and> (\<forall>b. b \<noteq> a \<longrightarrow> blocks h1 b = blocks h b)"

section \<open>The cells of a boundary point\<close>

text \<open>
  The cell \<open>i\<close> steps along the outward normal from the boundary point \<open>p\<close>: \<open>i = 0\<close> is
  \<open>p\<close> itself, negative \<open>i\<close> is inside the grid. The two conditions are those of the
  source: the global grid has at least 3 points once twice the boundary width is taken
  off, in the direction of the normal; the local grid has a single point in that direction
  and the boundary has width 1.
\<close>

definition bndry_cell :: "BoundaryRegion \<Rightarrow> ind \<Rightarrow> int \<Rightarrow> ind" where
  "bndry_cell bndry p i = (fst p + i * bx bndry, snd p + i * by' bndry)"

definition global_points_suffice :: "Mesh \<Rightarrow> BoundaryRegion \<Rightarrow> bool" where
  "global_points_suffice m bndry \<longleftrightarrow>
     (bx bndry \<noteq> 0 \<and> 3 \<le> GlobalNx m - 2 * width bndry)
     \<or> (by' bndry \<noteq> 0 \<and> 3 \<le> GlobalNy m - 2 * width bndry)"

definition single_local_point :: "Mesh \<Rightarrow> BoundaryRegion \<Rightarrow> bool" where
  "single_local_point m bndry \<longleftrightarrow>
     (bx bndry \<noteq> 0 \<and> LocalNx m = 1 \<and> width bndry = 1)
     \<or> (by' bndry \<noteq> 0 \<and> LocalNy m = 1 \<and> width bndry = 1)"

text \<open>The values of a result at the listed index pairs (the error, if it is one).\<close>

definition values_at :: "ind list \<Rightarrow> BoutException + Field2D \<Rightarrow> BoutException + BoutReal list" where
  "values_at ps res = map_sum id (\<lambda>r. map (fvals r) ps) res"

section \<open>The builders\<close>

text \<open>The statements of a builder run in order; the first error ends the construction.\<close>

fun seqE :: "('s \<Rightarrow> 'e + 's) list \<Rightarrow> 's \<Rightarrow> 'e + 's" where
  "seqE [] s = Inr s"
| "seqE (step # steps) s = (case step s of Inl e \<Rightarrow> Inl e | Inr s1 \<Rightarrow> seqE steps s1)"


text \<open>\<open>result->X = interpXLOWToXYCorner(coords_xlow->X, flag)\<close>.\<close>

definition assign_corner ::
  "Mesh \<Rightarrow> Coordinates \<Rightarrow> bool \<Rightarrow> (Coordinates \<Rightarrow> grid)
    \<Rightarrow> ((grid \<Rightarrow> grid) \<Rightarrow> Coordinates \<Rightarrow> Coordinates) \<Rightarrow> Coordinates
    \<Rightarrow> BoutException + Coordinates" where
  "assign_corner m coords_xlow flag sel upd c =
     (case interpXLOWToXYCorner_val m \<lparr>fvals = sel coords_xlow, floc = location coords_xlow\<rparr>
             flag of
        Inl e \<Rightarrow> Inl e
      | Inr r \<Rightarrow> Inr (upd (\<lambda>_. fvals r) c))"

text \<open>
  \<open>ShiftAngle\<close> is a \<open>std::vector<BoutReal>\<close>. An index outside the vector is undefined
  behaviour in the source; the model reads \<open>NaN\<close> there and writes nothing.
\<close>

definition vec_at :: "BoutReal list \<Rightarrow> int \<Rightarrow> BoutReal" where
  "vec_at v i = (if 0 \<le> i \<and> i < int (length v) then v ! nat i else NaN)"



text \<open>
  The correction of \<open>zShift\<close> for the discontinuity at the branch cut, the same loop in the
  three builders.
\<close>

definition zShift_column :: "Mesh \<Rightarrow> BoutReal list \<Rightarrow> int \<Rightarrow> grid \<Rightarrow> grid" where
  "zShift_column m sa x z =
     (let z1 = (if hasBranchCutDown m x
                then fold (\<lambda>y z. z((x, y) := z (x, y) - vec_at sa x)) [0 .. ystart m - 1] z
                else z)
      in if hasBranchCutUp m x
         then fold (\<lambda>y z. z((x, y) := z (x, y) + vec_at sa x)) [yend m + 1 .. LocalNy m - 1] z1
         else z1)"

definition correct_zShift :: "Mesh \<Rightarrow> Coordinates \<Rightarrow> Coordinates" where
  "correct_zShift m c =
     (if ShiftAngle c \<noteq> []
      then c\<lparr>zShift := fold (zShift_column m (ShiftAngle c)) [0 .. LocalNx m - 1] (zShift c)\<rparr>
      else c)"

text \<open>The checks of the interpolated metric, the same in the two builders.\<close>

definition check_interpolated_metrics :: "Mesh \<Rightarrow> Coordinates \<Rightarrow> BoutException + Coordinates" where
  "check_interpolated_metrics m c =
     (if \<not> finite_f m (g11 c) RGN_NOBNDRY \<or> \<not> finite_f m (g22 c) RGN_NOBNDRY
         \<or> \<not> finite_f m (g33 c) RGN_NOBNDRY
      then Inl (BoutException ''ERROR: Interpolated diagonal metrics are not finite!'')
      else if min_f m (g11 c) \<le> Fin 0 \<or> min_f m (g22 c) \<le> Fin 0 \<or> min_f m (g33 c) \<le> Fin 0
      then Inl (BoutException ''ERROR: Interpolated diagonal metrics are negative!'')
      else if \<not> finite_f m (g12 c) RGN_NOBNDRY \<or> \<not> finite_f m (g13 c) RGN_NOBNDRY
              \<or> \<not> finite_f m (g23 c) RGN_NOBNDRY
      then Inl (BoutException ''ERROR: Interpolated off-diagonal metrics are not finite!'')
      else Inr c)"

text \<open>\<open>if (result->calcCovariant()) throw BoutException("Error in calcCovariant call")\<close>.\<close>

definition calcCovariant_or_throw :: "Mesh \<Rightarrow> Coordinates \<Rightarrow> BoutException + Coordinates" where
  "calcCovariant_or_throw m c =
     (case calcCovariant m c of
        Inl e \<Rightarrow> Inl (BoutException ''Error in calcCovariant call'')
      | Inr c1 \<Rightarrow> Inr c1)"


text \<open>
  \<open>Coordinates::getCoordinatesXYCorner(mesh_in)\<close>; \<open>coords_xlow\<close> is
  \<open>mesh_in->getCoordinates(CELL_XLOW)\<close>.
\<close>

definition getCoordinatesXYCorner ::
  "Mesh \<Rightarrow> Coordinates \<Rightarrow> Coordinates \<Rightarrow> BoutException + Coordinates" where
  "getCoordinatesXYCorner m c0 coords_xlow =
     seqE
       [assign_corner m coords_xlow False dx dx_update,
        assign_corner m coords_xlow False dy dy_update,
        \<lambda>c. Inr (c\<lparr>nz := LocalNz m\<rparr>),
        \<lambda>c. Inr (c\<lparr>dz := dz coords_xlow\<rparr>),
        assign_corner m coords_xlow (hasBranchCut m) g11 g11_update,
        assign_corner m coords_xlow (hasBranchCut m) g22 g22_update,
        assign_corner m coords_xlow (hasBranchCut m) g33 g33_update,
        assign_corner m coords_xlow (hasBranchCut m) g12 g12_update,
        assign_corner m coords_xlow (hasBranchCut m) g13 g13_update,
        assign_corner m coords_xlow (hasBranchCut m) g23 g23_update,
        \<lambda>c. Inr (c\<lparr>ShiftAngle := ShiftAngle coords_xlow\<rparr>),
        assign_corner m coords_xlow False zShift zShift_update,
        \<lambda>c. Inr (c\<lparr>zShift := communicate m (zShift c)\<rparr>),
        \<lambda>c. Inr (correct_zShift m c),
        check_interpolated_metrics m,
        calcCovariant_or_throw m,
        jacobian m,
        geometry m,
        assign_corner m coords_xlow (hasBranchCut m) ShiftTorsion ShiftTorsion_update,
        \<lambda>c. if IncIntShear m
             then assign_corner m coords_xlow False IntShiftTorsion IntShiftTorsion_update c
             else Inr c]
       c0"


section \<open>zShift without extrapolation\<close>

section \<open>Example meshes and objects\<close>

text \<open>
  A mesh of one processor with 2 guard cells on every side of a single interior point,
  no boundary region and no branch cut. Its collaborators: a halo exchange that changes
  nothing, central differences, an \<open>interp_to\<close> that never needs to interpolate, the
  four-point stencil for \<open>interp\<close>.
\<close>

definition central_x :: "Field2D \<Rightarrow> CELL_LOC \<Rightarrow> Field2D" where
  "central_x f loc =
     \<lparr>fvals = (\<lambda>(x, y). (fvals f (x + 1, y) - fvals f (x - 1, y)) / Fin 2),
      floc = (if loc = CELL_DEFAULT then floc f else loc)\<rparr>"

definition central_y :: "Field2D \<Rightarrow> CELL_LOC \<Rightarrow> Field2D" where
  "central_y f loc =
     \<lparr>fvals = (\<lambda>(x, y). (fvals f (x, y + 1) - fvals f (x, y - 1)) / Fin 2),
      floc = (if loc = CELL_DEFAULT then floc f else loc)\<rparr>"

definition central_y_3D :: "Field3D \<Rightarrow> CELL_LOC \<Rightarrow> Field3D" where
  "central_y_3D f loc =
     \<lparr>fvals3 = (\<lambda>(x, y, z). (fvals3 f (x, y + 1, z) - fvals3 f (x, y - 1, z)) / Fin 2),
      floc3 = (if loc = CELL_DEFAULT then floc3 f else loc),
      yupydown = NoYupYdown\<rparr>"

definition mesh_ex :: Mesh where
  "mesh_ex =
     \<lparr>LocalNx = 5, LocalNy = 5, LocalNz = 1, GlobalNx = 5, GlobalNy = 5,
      xstart = 2, xend = 2, ystart = 2, yend = 2,
      getBoundaries = [],
      hasBranchCutDown = (\<lambda>x. False), hasBranchCutUp = (\<lambda>x. False), hasBranchCut = False,
      IncIntShear = False,
      communicate = (\<lambda>g. g),
      indexDDX = central_x, indexDDY = central_y, DDY_3D = central_y_3D,
      interp_to = (\<lambda>f loc. None),
      interp = (\<lambda>(mm, m, p, pp). (Fin 9 * (m + p) - mm - pp) / Fin 16),
      min_rgn = RGN_NOBNDRY,
      source_d2x = None, source_d2y = None\<rparr>"

text \<open>The object of flat space: the identity metric, unit spacings.\<close>

definition coords_flat :: Coordinates where
  "coords_flat =
     \<lparr>dx = scalar (Fin 1), dy = scalar (Fin 1), dz = Fin 1, nz = 1,
      J = scalar (Fin 1), Bxy = scalar (Fin 1),
      g11 = scalar (Fin 1), g22 = scalar (Fin 1), g33 = scalar (Fin 1),
      g12 = scalar (Fin 0), g13 = scalar (Fin 0), g23 = scalar (Fin 0),
      g_11 = scalar (Fin 1), g_22 = scalar (Fin 1), g_33 = scalar (Fin 1),
      g_12 = scalar (Fin 0), g_13 = scalar (Fin 0), g_23 = scalar (Fin 0),
      G1_11 = scalar (Fin 0), G1_22 = scalar (Fin 0), G1_33 = scalar (Fin 0),
      G1_12 = scalar (Fin 0), G1_13 = scalar (Fin 0), G1_23 = scalar (Fin 0),
      G2_11 = scalar (Fin 0), G2_22 = scalar (Fin 0), G2_33 = scalar (Fin 0),
      G2_12 = scalar (Fin 0), G2_13 = scalar (Fin 0), G2_23 = scalar (Fin 0),
      G3_11 = scalar (Fin 0), G3_22 = scalar (Fin 0), G3_33 = scalar (Fin 0),
      G3_12 = scalar (Fin 0), G3_13 = scalar (Fin 0), G3_23 = scalar (Fin 0),
      G1 = scalar (Fin 0), G2 = scalar (Fin 0), G3 = scalar (Fin 0),
      d1_dx = scalar (Fin 0), d1_dy = scalar (Fin 0),
      zShift = scalar (Fin 0), ShiftAngle = [],
      ShiftTorsion = scalar (Fin 0), IntShiftTorsion = scalar (Fin 0),
      location = CELL_CENTRE\<rparr>"


text \<open>
  An object with a sheared metric: \<open>g^23 = 4/5\<close> where \<open>y \<ge> 2\<close> and 0 below. The
  covariant components are the inverse of the contravariant ones at every point, \<open>J\<close> and
  \<open>Bxy\<close> are what \<open>jacobian\<close> computes from them.
\<close>

definition coords_shear :: Coordinates where
  "coords_shear =
     coords_flat\<lparr>g23 := (\<lambda>(x, y). if 2 \<le> y then Fin (4 / 5) else Fin 0),
                 g_22 := (\<lambda>(x, y). if 2 \<le> y then Fin (25 / 9) else Fin 1),
                 g_33 := (\<lambda>(x, y). if 2 \<le> y then Fin (25 / 9) else Fin 1),
                 g_23 := (\<lambda>(x, y). if 2 \<le> y then Fin (- (20 / 9)) else Fin 0),
                 J := (\<lambda>(x, y). if 2 \<le> y then Fin (5 / 3) else Fin 1)\<rparr>"

text \<open>
  The Geometry of each location tag for the example of \<open>Div_par\<close>: \<open>Bxy = 4\<close> at
  \<open>CELL_YLOW\<close>, \<open>Bxy = 2\<close> elsewhere; and a field at \<open>CELL_CENTRE\<close> that holds \<open>y\<close>.
\<close>

definition coords_ex :: "CELL_LOC \<Rightarrow> Coordinates" where
  "coords_ex loc =
     (if loc = CELL_YLOW then coords_flat\<lparr>location := CELL_YLOW, Bxy := scalar (Fin 4)\<rparr>
      else coords_flat\<lparr>Bxy := scalar (Fin 2)\<rparr>)"

definition field_y :: Field2D where
  "field_y = \<lparr>fvals = (\<lambda>(x, y). Fin (real_of_int y)), floc = CELL_CENTRE\<rparr>"

text \<open>
  A field that holds \<open>x * x\<close>, and three meshes with an outer x-boundary of width 2:
  \<open>mesh_bx\<close> has 1 point in x globally and locally; \<open>mesh_split\<close> has 4 points in x
  globally of which this processor holds 2; \<open>mesh_zero\<close> has no interior point in x.
\<close>

definition field_x2 :: Field2D where
  "field_x2 = \<lparr>fvals = (\<lambda>(x, y). Fin (real_of_int (x * x))), floc = CELL_CENTRE\<rparr>"

definition mesh_bx :: Mesh where
  "mesh_bx = mesh_ex\<lparr>getBoundaries := [\<lparr>bx = 1, by' = 0, width = 2, bpoints = [(3, 2)]\<rparr>]\<rparr>"

definition mesh_split :: Mesh where
  "mesh_split =
     mesh_ex\<lparr>LocalNx := 6, GlobalNx := 8, xend := 3,
             getBoundaries := [\<lparr>bx = 1, by' = 0, width = 2, bpoints = [(4, 2)]\<rparr>]\<rparr>"

definition mesh_zero :: Mesh where
  "mesh_zero =
     mesh_ex\<lparr>LocalNx := 4, GlobalNx := 4, xend := 1,
             getBoundaries := [\<lparr>bx = 1, by' = 0, width = 2, bpoints = [(2, 2)]\<rparr>]\<rparr>"



definition coords_xlow :: Coordinates where
  "coords_xlow = coords_flat\<lparr>location := CELL_XLOW\<rparr>"

definition mesh_thin :: Mesh where
  "mesh_thin = mesh_ex\<lparr>xstart := 1, xend := 3\<rparr>"



text \<open>
  \<open>mesh_one\<close>: 5 points in x globally, of which this processor holds a single one, and an
  outer x-boundary of width 1. \<open>field3_y\<close>: a \<open>Field3D\<close> at \<open>CELL_CENTRE\<close> that holds
  \<open>y\<close>, with parallel slices of its own.
\<close>

definition mesh_one :: Mesh where
  "mesh_one =
     mesh_ex\<lparr>LocalNx := 1, xstart := 0, xend := 0,
             getBoundaries := [\<lparr>bx = 1, by' = 0, width = 1, bpoints = [(1, 2)]\<rparr>]\<rparr>"

definition field3_y :: Field3D where
  "field3_y =
     \<lparr>fvals3 = (\<lambda>(x, y, z). Fin (real_of_int y)), floc3 = CELL_CENTRE,
      yupydown = Distinct (\<lambda>(x, y, z). Fin 6) (\<lambda>(x, y, z). Fin 8)\<rparr>"
section \<open>Arithmetic of BoutReal and of fields\<close>

lemma minus_Fin [simp]: "Fin a - Fin b = Fin (a - b)"
  by (simp add: minus_BoutReal_def)

lemma isfinite_iff: "isfinite v \<longleftrightarrow> v = Fin (the_Fin v)"
  by (cases v) auto

lemmas field_ops =
  plus_fun_def times_fun_def divide_fun_def abs_fun_def fun_diff_def fun_Compl_def
  scalar_def sqrt_f_def

section \<open>The reductions of a field\<close>


lemma scan_min_le:
  assumes "r0 \<noteq> NaN" "\<forall>q\<in>set ps. f q \<noteq> NaN"
  shows "fold (\<lambda>q r. if f q < r then f q else r) ps r0 \<le> c \<longleftrightarrow> r0 \<le> c \<or> (\<exists>q\<in>set ps. f q \<le> c)"
  using assms
proof (induction ps arbitrary: r0)
  case Nil
  then show ?case by simp
next
  case (Cons q ps)
  let ?r1 = "if f q < r0 then f q else r0"
  have r1: "?r1 \<noteq> NaN" using Cons.prems by auto
  have step: "?r1 \<le> c \<longleftrightarrow> r0 \<le> c \<or> f q \<le> c"
    using Cons.prems by (cases "f q"; cases r0; cases c) auto
  have "fold (\<lambda>q r. if f q < r then f q else r) (q # ps) r0 \<le> c
      \<longleftrightarrow> ?r1 \<le> c \<or> (\<exists>q\<in>set ps. f q \<le> c)"
    using Cons.IH[OF r1] Cons.prems by simp
  with step show ?case by auto
qed


lemma min_f_le:
  assumes "rgn_points m (min_rgn m) \<noteq> []"
    and "\<forall>p\<in>set (rgn_points m (min_rgn m)). f p \<noteq> NaN"
  shows "min_f m f \<le> c \<longleftrightarrow> (\<exists>p\<in>set (rgn_points m (min_rgn m)). f p \<le> c)"
proof -
  from assms(1) obtain p ps where ps: "rgn_points m (min_rgn m) = p # ps"
    by (cases "rgn_points m (min_rgn m)") auto
  show ?thesis
    using assms(2) scan_min_le[of "f p" ps f c]
    by (simp add: min_f_def ps)
qed

lemma min_f_scalar:
  assumes "rgn_points m (min_rgn m) \<noteq> []"
  shows "min_f m (scalar v) = v"
proof -
  from assms(1) obtain p ps where ps: "rgn_points m (min_rgn m) = p # ps"
    by (cases "rgn_points m (min_rgn m)") auto
  have "fold (\<lambda>q r. if v < r then v else r) qs v = v" for qs :: "ind list"
    by (induction qs) simp_all
  then show ?thesis by (simp add: min_f_def ps scalar_def)
qed

lemma finite_f_iff: "finite_f m f rgn \<longleftrightarrow> (\<forall>p\<in>set (rgn_points m rgn). isfinite (f p))"
  by (simp add: finite_f_def list_all_iff)

section \<open>Metric inversion: the round trip\<close>







lemma con_at_set_cov [simp]: "con_at (set_cov c p t) q = con_at c q"
  by (cases t) (simp add: con_at_def set_cov_def)

lemma cov_at_set_cov [simp]: "cov_at (set_cov c p t) q = (if q = p then t else cov_at c q)"
  by (cases t) (simp add: cov_at_def set_cov_def)

lemma cov_at_set_con [simp]: "cov_at (set_con c p t) q = cov_at c q"
  by (cases t) (simp add: cov_at_def set_con_def)

lemma con_at_set_con [simp]: "con_at (set_con c p t) q = (if q = p then t else con_at c q)"
  by (cases t) (simp add: con_at_def set_con_def)








lemma pos_def3_of_quadratic_form:
  fixes a11 a22 a33 a12 a13 a23 :: real
  assumes Q: "\<And>x y z. (x, y, z) \<noteq> (0, 0, 0) \<Longrightarrow>
    0 < a11 * x * x + a22 * y * y + a33 * z * z + 2 * a12 * x * y + 2 * a13 * x * z + 2 * a23 * y * z"
  shows "pos_def3 a11 a22 a33 a12 a13 a23"
proof -
  have p1: "0 < a11" using Q[of 1 0 0] by simp
  have "0 < a11 * (a11 * a22 - a12 * a12)"
    using Q[of "- a12" a11 0] p1 by (simp add: algebra_simps)
  with p1 have p2: "0 < a11 * a22 - a12 * a12"
    by (simp add: zero_less_mult_iff)
  have id: "a11 * x * x + a22 * y * y + a33 * z * z + 2 * a12 * x * y + 2 * a13 * x * z + 2 * a23 * y * z
      = (a11 * a22 - a12 * a12) * det3 a11 a22 a33 a12 a13 a23"
    if "x = a12 * a23 - a13 * a22" "y = a13 * a12 - a11 * a23" "z = a11 * a22 - a12 * a12" for x y z
    unfolding that det3_def by algebra
  have "0 < (a11 * a22 - a12 * a12) * det3 a11 a22 a33 a12 a13 a23"
    using Q[of "a12 * a23 - a13 * a22" "a13 * a12 - a11 * a23" "a11 * a22 - a12 * a12"] p2
    by (simp add: id)
  with p2 have "0 < det3 a11 a22 a33 a12 a13 a23"
    by (simp add: zero_less_mult_iff)
  with p1 p2 show ?thesis by (simp add: pos_def3_def)
qed

section \<open>The Jacobian\<close>






section \<open>Flat space\<close>

lemma jacobian_identity:
  assumes ne: "rgn_points m (min_rgn m) \<noteq> []"
    and id: "g11 c = scalar (Fin 1)" "g22 c = scalar (Fin 1)" "g33 c = scalar (Fin 1)"
      "g12 c = scalar (Fin 0)" "g13 c = scalar (Fin 0)" "g23 c = scalar (Fin 0)"
      "g_22 c = scalar (Fin 1)"
  shows "jacobian m c = Inr (c\<lparr>J := scalar (Fin 1), Bxy := scalar (Fin 1)\<rparr>)"
proof -
  have g1: "jacobian_g c = scalar (Fin 1)"
    by (simp add: jacobian_g_def id field_ops)
  have J1: "scalar (Fin 1) / sqrt_f (scalar (Fin 1)) = scalar (Fin 1)"
    "\<bar>scalar (Fin 1)\<bar> = scalar (Fin 1)"
    by (simp_all add: field_ops)
  show ?thesis
    by (simp add: jacobian_def Let_def g1 J1 min_f_scalar[OF ne] id finite_f_iff)
      (simp add: field_ops)
qed

lemma christoffel_flat:
  assumes flat: "flat_metric c" and J1: "J c = scalar (Fin 1)"
    and sp: "dx c = scalar (Fin 1)" "dy c = scalar (Fin 1)"
    and dX: "\<And>a. fvals (indexDDX m \<lparr>fvals = scalar (Fin a), floc = location c\<rparr> CELL_DEFAULT) = scalar (Fin 0)"
    and dY: "\<And>a. fvals (indexDDY m \<lparr>fvals = scalar (Fin a), floc = location c\<rparr> CELL_DEFAULT) = scalar (Fin 0)"
  shows "all_connection_zero (christoffel m c)"
proof -
  have x: "ddx m c (scalar (Fin a)) = scalar (Fin 0)" for a
    by (simp add: ddx_def fdiv_def dX sp) (simp add: field_ops)
  have y: "ddy m c (scalar (Fin a)) = scalar (Fin 0)" for a
    by (simp add: ddy_def fdiv_def dY sp) (simp add: field_ops)
  have z: "ddz m c f = scalar (Fin 0)" for f
    by (simp add: ddz_def)
  have ar: "scalar (Fin a) * scalar (Fin b) = scalar (Fin (a * b))"
    "scalar (Fin a) + scalar (Fin b) = scalar (Fin (a + b))"
    "scalar (Fin a) - scalar (Fin b) = scalar (Fin (a - b))"
    "scalar (Fin a) / scalar (Fin 1) = scalar (Fin a)" for a b
    by (simp_all add: field_ops)
  note m = flat[unfolded flat_metric_def]
  show ?thesis
    unfolding all_connection_zero_def christoffel_def Let_def
    by (simp add: m J1 x y z ar)
qed

lemma geometry_flat:
  assumes ne: "rgn_points m (min_rgn m) \<noteq> []"
    and flat: "flat_metric c" and J1: "J c = scalar (Fin 1)"
    and sp: "dx c = scalar (Fin 1)" "dy c = scalar (Fin 1)" "dz c = Fin 1"
    and dX: "\<And>a. fvals (indexDDX m \<lparr>fvals = scalar (Fin a), floc = location c\<rparr> CELL_DEFAULT) = scalar (Fin 0)"
    and dY: "\<And>a. fvals (indexDDY m \<lparr>fvals = scalar (Fin a), floc = location c\<rparr> CELL_DEFAULT) = scalar (Fin 0)"
    and comm: "communicate m (scalar (Fin 0)) = scalar (Fin 0)"
  shows "\<exists>c2. geometry m c = Inr c2 \<and> all_connection_zero c2 \<and> J c2 = J c \<and> Bxy c2 = Bxy c"
proof -
  note fl = flat[unfolded flat_metric_def]
  have ab: "\<bar>scalar (Fin 1)\<bar> = scalar (Fin 1)" by (simp add: field_ops)
  have fin: "finite_f m (scalar (Fin a)) rgn" for a rgn
    by (simp add: finite_f_iff scalar_def)
  have g: "geometry m c = Inr (non_uniform_correction m (communicate_christoffel m (christoffel m c)))"
    by (simp add: geometry_def fl sp ab min_f_scalar[OF ne] fin)
  have z: "all_connection_zero (christoffel m c)"
    by (rule christoffel_flat[OF flat J1 sp(1,2) dX dY])
  have z2: "all_connection_zero (non_uniform_correction m (communicate_christoffel m (christoffel m c)))"
    using z unfolding all_connection_zero_def communicate_christoffel_def non_uniform_correction_def
    by (simp add: comm Let_def split: option.splits)
  have keep: "J (non_uniform_correction m (communicate_christoffel m (christoffel m c))) = J c"
    "Bxy (non_uniform_correction m (communicate_christoffel m (christoffel m c))) = Bxy c"
    by (simp_all add: communicate_christoffel_def non_uniform_correction_def christoffel_def Let_def
        split: option.splits)
  from g z2 keep show ?thesis by simp
qed

text \<open>
  Claim C8. For the flat-space identity metric (both representations the identity,
  constant over the grid) with \<open>dx = dy = dz = 1\<close>, the construction succeeds:
  \<open>jacobian\<close> and then \<open>geometry\<close> return, all 18 Christoffel symbols and the 3
  contracted terms are 0 everywhere, \<open>J = 1\<close> and \<open>Bxy = 1\<close> everywhere. The
  collaborators are as they must be for any such statement: the index derivatives of a
  constant field are 0, the halo exchange of the zero field is the zero field, and the
  region \<open>min\<close> scans holds a point.
\<close>

theorem flat_space_geometry:
  assumes ne: "rgn_points m (min_rgn m) \<noteq> []"
    and flat: "flat_metric c"
    and sp: "dx c = scalar (Fin 1)" "dy c = scalar (Fin 1)" "dz c = Fin 1"
    and dX: "\<forall>a. fvals (indexDDX m \<lparr>fvals = scalar (Fin a), floc = location c\<rparr> CELL_DEFAULT) = scalar (Fin 0)"
    and dY: "\<forall>a. fvals (indexDDY m \<lparr>fvals = scalar (Fin a), floc = location c\<rparr> CELL_DEFAULT) = scalar (Fin 0)"
    and comm: "communicate m (scalar (Fin 0)) = scalar (Fin 0)"
  shows "\<exists>c1 c2. jacobian m c = Inr c1 \<and> geometry m c1 = Inr c2 \<and>
           all_connection_zero c2 \<and> J c2 = scalar (Fin 1) \<and> Bxy c2 = scalar (Fin 1)"
proof -
  note fl = flat[unfolded flat_metric_def]
  let ?c1 = "c\<lparr>J := scalar (Fin 1), Bxy := scalar (Fin 1)\<rparr>"
  have j: "jacobian m c = Inr ?c1"
    using fl by (intro jacobian_identity[OF ne]) simp_all
  have flat1: "flat_metric ?c1" using flat by (simp add: flat_metric_def)
  from geometry_flat[OF ne flat1, of ] sp dX dY comm
  obtain c2 where "geometry m ?c1 = Inr c2" "all_connection_zero c2" "J c2 = J ?c1" "Bxy c2 = Bxy ?c1"
    by auto
  with j show ?thesis by simp
qed

theorem flat_space_geometry_witness:
  "rgn_points mesh_ex (min_rgn mesh_ex) \<noteq> [] \<and> flat_metric coords_flat \<and>
   dx coords_flat = scalar (Fin 1) \<and> dy coords_flat = scalar (Fin 1) \<and> dz coords_flat = Fin 1 \<and>
   communicate mesh_ex (scalar (Fin 0)) = scalar (Fin 0) \<and>
   (\<exists>c1 c2. jacobian mesh_ex coords_flat = Inr c1 \<and> geometry mesh_ex c1 = Inr c2 \<and>
      all_connection_zero c2 \<and> J c2 = scalar (Fin 1) \<and> Bxy c2 = scalar (Fin 1))"
proof -
  have ne: "rgn_points mesh_ex (min_rgn mesh_ex) \<noteq> []"
    by (simp add: mesh_ex_def rgn_points_def)
  have flat: "flat_metric coords_flat"
    by (simp add: flat_metric_def coords_flat_def)
  have sp: "dx coords_flat = scalar (Fin 1)" "dy coords_flat = scalar (Fin 1)" "dz coords_flat = Fin 1"
    by (simp_all add: coords_flat_def)
  have dX: "\<forall>a. fvals (indexDDX mesh_ex \<lparr>fvals = scalar (Fin a), floc = location coords_flat\<rparr> CELL_DEFAULT) = scalar (Fin 0)"
    by (simp add: mesh_ex_def central_x_def scalar_def split_def)
  have dY: "\<forall>a. fvals (indexDDY mesh_ex \<lparr>fvals = scalar (Fin a), floc = location coords_flat\<rparr> CELL_DEFAULT) = scalar (Fin 0)"
    by (simp add: mesh_ex_def central_y_def scalar_def split_def)
  have comm: "communicate mesh_ex (scalar (Fin 0)) = scalar (Fin 0)"
    by (simp add: mesh_ex_def)
  show ?thesis
    using ne flat sp comm flat_space_geometry [OF ne flat sp dX dY comm] by simp
qed


section \<open>The connection coefficients against the standard symbols\<close>

lemma rgn_ex [simp]: "rgn_points mesh_ex RGN_NOBNDRY = [(2, 2)]"
  by (simp add: rgn_points_def mesh_ex_def)

lemma sqrt_9_25: "sqrt (9 / 25) = 3 / 5"
  by (rule real_sqrt_unique) (simp_all add: power2_eq_square)

lemma sqrt_25_9: "sqrt (25 / 9) = 5 / 3"
  by (rule real_sqrt_unique) (simp_all add: power2_eq_square)

lemma shear_inverse:
  "inv6 (con_at coords_shear (x, y)) = Some (cov_at coords_shear (x, y))"
  by (simp add: inv6_def con_at_def cov_at_def coords_shear_def coords_flat_def scalar_def
      invert3x3_def metric_matrix_def Let_def zero_BoutReal_def)

lemma shear_jacobian: "jacobian mesh_ex coords_shear = Inr coords_shear"
proof -
  have g: "jacobian_g coords_shear = (\<lambda>(x, y). if 2 \<le> y then Fin (9 / 25) else Fin 1)"
    by (auto simp: jacobian_g_def coords_shear_def coords_flat_def field_ops fun_eq_iff)
  have J: "scalar (Fin 1) / sqrt_f (jacobian_g coords_shear) = J coords_shear"
    by (simp add: field_ops g) (auto simp: coords_shear_def fun_eq_iff sqrt_9_25)
  have B: "sqrt_f (g_22 coords_shear) / J coords_shear = Bxy coords_shear"
    by (auto simp: coords_shear_def coords_flat_def field_ops fun_eq_iff sqrt_25_9)
  have m: "min_f mesh_ex f = f (2, 2)" for f
    by (simp add: min_f_def mesh_ex_def rgn_points_def)
  have v: "jacobian_g coords_shear (2, 2) = Fin (9 / 25)" "J coords_shear (2, 2) = Fin (5 / 3)"
    "g_22 coords_shear (2, 2) = Fin (25 / 9)"
    by (simp_all add: g) (simp_all add: coords_shear_def)
  show ?thesis
    unfolding jacobian_def Let_def J
    by (simp add: m finite_f_def B v abs_fun_def)
qed

lemma shear_geometry:
  "\<exists>c. geometry mesh_ex coords_shear = Inr c \<and> G2_22 c (2, 2) = Fin (172 / 225)"
proof -
  have m: "min_f mesh_ex f = f (2, 2)" for f
    by (simp add: min_f_def mesh_ex_def rgn_points_def)
  have chk: "geometry mesh_ex coords_shear =
    Inr (non_uniform_correction mesh_ex (communicate_christoffel mesh_ex (christoffel mesh_ex coords_shear)))"
    by (simp add: geometry_def m finite_f_def)
      (simp add: coords_shear_def coords_flat_def field_ops)
  have "G2_22 (non_uniform_correction mesh_ex (communicate_christoffel mesh_ex (christoffel mesh_ex coords_shear))) (2, 2)
     = G2_22 (christoffel mesh_ex coords_shear) (2, 2)"
    by (simp add: non_uniform_correction_def communicate_christoffel_def Let_def mesh_ex_def)
  also have "\<dots> = Fin (172 / 225)"
    by (simp add: christoffel_def Let_def ddx_def ddy_def ddz_def fdiv_def)
       (simp add: mesh_ex_def central_x_def central_y_def coords_shear_def coords_flat_def field_ops)
  finally show ?thesis using chk by simp
qed

lemma christoffel_matches_std:
  assumes "finite_metric_at m c p"
  shows "G1_11 (christoffel m c) p = christoffel_std m c 1 1 1 p"
    and "G1_22 (christoffel m c) p = christoffel_std m c 1 2 2 p"
    and "G1_33 (christoffel m c) p = christoffel_std m c 1 3 3 p"
    and "G1_12 (christoffel m c) p = christoffel_std m c 1 1 2 p"
    and "G1_13 (christoffel m c) p = christoffel_std m c 1 1 3 p"
    and "G1_23 (christoffel m c) p = christoffel_std m c 1 2 3 p"
    and "G2_11 (christoffel m c) p = christoffel_std m c 2 1 1 p"
    and "G2_33 (christoffel m c) p = christoffel_std m c 2 3 3 p"
    and "G2_12 (christoffel m c) p = christoffel_std m c 2 1 2 p"
    and "G2_13 (christoffel m c) p = christoffel_std m c 2 1 3 p"
    and "G2_23 (christoffel m c) p = christoffel_std m c 2 2 3 p"
    and "G3_11 (christoffel m c) p = christoffel_std m c 3 1 1 p"
    and "G3_22 (christoffel m c) p = christoffel_std m c 3 2 2 p"
    and "G3_33 (christoffel m c) p = christoffel_std m c 3 3 3 p"
    and "G3_12 (christoffel m c) p = christoffel_std m c 3 1 2 p"
    and "G3_13 (christoffel m c) p = christoffel_std m c 3 1 3 p"
    and "G3_23 (christoffel m c) p = christoffel_std m c 3 2 3 p"
proof -
  define a11 where "a11 = the_Fin (g11 c p)"
  define a22 where "a22 = the_Fin (g22 c p)"
  define a33 where "a33 = the_Fin (g33 c p)"
  define a12 where "a12 = the_Fin (g12 c p)"
  define a13 where "a13 = the_Fin (g13 c p)"
  define a23 where "a23 = the_Fin (g23 c p)"
  define x11 where "x11 = the_Fin (ddx m c (g_11 c) p)"
  define x22 where "x22 = the_Fin (ddx m c (g_22 c) p)"
  define x33 where "x33 = the_Fin (ddx m c (g_33 c) p)"
  define x12 where "x12 = the_Fin (ddx m c (g_12 c) p)"
  define x13 where "x13 = the_Fin (ddx m c (g_13 c) p)"
  define x23 where "x23 = the_Fin (ddx m c (g_23 c) p)"
  define y11 where "y11 = the_Fin (ddy m c (g_11 c) p)"
  define y22 where "y22 = the_Fin (ddy m c (g_22 c) p)"
  define y33 where "y33 = the_Fin (ddy m c (g_33 c) p)"
  define y12 where "y12 = the_Fin (ddy m c (g_12 c) p)"
  define y13 where "y13 = the_Fin (ddy m c (g_13 c) p)"
  define y23 where "y23 = the_Fin (ddy m c (g_23 c) p)"
  have v:
    "g11 c p = Fin a11"
    "g22 c p = Fin a22"
    "g33 c p = Fin a33"
    "g12 c p = Fin a12"
    "g13 c p = Fin a13"
    "g23 c p = Fin a23"
    "ddx m c (g_11 c) p = Fin x11"
    "ddx m c (g_22 c) p = Fin x22"
    "ddx m c (g_33 c) p = Fin x33"
    "ddx m c (g_12 c) p = Fin x12"
    "ddx m c (g_13 c) p = Fin x13"
    "ddx m c (g_23 c) p = Fin x23"
    "ddy m c (g_11 c) p = Fin y11"
    "ddy m c (g_22 c) p = Fin y22"
    "ddy m c (g_33 c) p = Fin y33"
    "ddy m c (g_12 c) p = Fin y12"
    "ddy m c (g_13 c) p = Fin y13"
    "ddy m c (g_23 c) p = Fin y23"
    using assms unfolding a11_def a22_def a33_def a12_def a13_def a23_def x11_def x22_def x33_def x12_def x13_def x23_def y11_def y22_def y33_def y12_def y13_def y23_def
    by (simp_all add: finite_metric_at_def isfinite_iff[symmetric])
  have z: "ddz m c f p = Fin 0" for f by (simp add: ddz_def scalar_def)
  note defs = christoffel_def Let_def christoffel_std_def christoffel_term_def con_def cov_def
    partial_def plus_fun_def times_fun_def fun_diff_def scalar_def
  show "G1_11 (christoffel m c) p = christoffel_std m c 1 1 1 p"
    and "G1_22 (christoffel m c) p = christoffel_std m c 1 2 2 p"
    and "G1_33 (christoffel m c) p = christoffel_std m c 1 3 3 p"
    and "G1_12 (christoffel m c) p = christoffel_std m c 1 1 2 p"
    and "G1_13 (christoffel m c) p = christoffel_std m c 1 1 3 p"
    and "G1_23 (christoffel m c) p = christoffel_std m c 1 2 3 p"
    and "G2_11 (christoffel m c) p = christoffel_std m c 2 1 1 p"
    and "G2_33 (christoffel m c) p = christoffel_std m c 2 3 3 p"
    and "G2_12 (christoffel m c) p = christoffel_std m c 2 1 2 p"
    and "G2_13 (christoffel m c) p = christoffel_std m c 2 1 3 p"
    and "G2_23 (christoffel m c) p = christoffel_std m c 2 2 3 p"
    and "G3_11 (christoffel m c) p = christoffel_std m c 3 1 1 p"
    and "G3_22 (christoffel m c) p = christoffel_std m c 3 2 2 p"
    and "G3_33 (christoffel m c) p = christoffel_std m c 3 3 3 p"
    and "G3_12 (christoffel m c) p = christoffel_std m c 3 1 2 p"
    and "G3_13 (christoffel m c) p = christoffel_std m c 3 1 3 p"
    and "G3_23 (christoffel m c) p = christoffel_std m c 3 2 3 p"
    by (simp_all add: defs z v field_simps)
qed


lemma G2_22_differs:
  assumes "finite_metric_at m c p" "isfinite (ddy m c (g23 c) p)"
  shows "G2_22 (christoffel m c) p =
           christoffel_std m c 2 2 2 p + g23 c p * (ddy m c (g23 c) p - ddy m c (g_23 c) p)"
proof -
  define a11 where "a11 = the_Fin (g11 c p)"
  define a22 where "a22 = the_Fin (g22 c p)"
  define a33 where "a33 = the_Fin (g33 c p)"
  define a12 where "a12 = the_Fin (g12 c p)"
  define a13 where "a13 = the_Fin (g13 c p)"
  define a23 where "a23 = the_Fin (g23 c p)"
  define x11 where "x11 = the_Fin (ddx m c (g_11 c) p)"
  define x22 where "x22 = the_Fin (ddx m c (g_22 c) p)"
  define x33 where "x33 = the_Fin (ddx m c (g_33 c) p)"
  define x12 where "x12 = the_Fin (ddx m c (g_12 c) p)"
  define x13 where "x13 = the_Fin (ddx m c (g_13 c) p)"
  define x23 where "x23 = the_Fin (ddx m c (g_23 c) p)"
  define y11 where "y11 = the_Fin (ddy m c (g_11 c) p)"
  define y22 where "y22 = the_Fin (ddy m c (g_22 c) p)"
  define y33 where "y33 = the_Fin (ddy m c (g_33 c) p)"
  define y12 where "y12 = the_Fin (ddy m c (g_12 c) p)"
  define y13 where "y13 = the_Fin (ddy m c (g_13 c) p)"
  define y23 where "y23 = the_Fin (ddy m c (g_23 c) p)"
  define w where "w = the_Fin (ddy m c (g23 c) p)"
  have v:
    "g11 c p = Fin a11"
    "g22 c p = Fin a22"
    "g33 c p = Fin a33"
    "g12 c p = Fin a12"
    "g13 c p = Fin a13"
    "g23 c p = Fin a23"
    "ddx m c (g_11 c) p = Fin x11"
    "ddx m c (g_22 c) p = Fin x22"
    "ddx m c (g_33 c) p = Fin x33"
    "ddx m c (g_12 c) p = Fin x12"
    "ddx m c (g_13 c) p = Fin x13"
    "ddx m c (g_23 c) p = Fin x23"
    "ddy m c (g_11 c) p = Fin y11"
    "ddy m c (g_22 c) p = Fin y22"
    "ddy m c (g_33 c) p = Fin y33"
    "ddy m c (g_12 c) p = Fin y12"
    "ddy m c (g_13 c) p = Fin y13"
    "ddy m c (g_23 c) p = Fin y23"
    "ddy m c (g23 c) p = Fin w"
    using assms unfolding a11_def a22_def a33_def a12_def a13_def a23_def x11_def x22_def x33_def x12_def x13_def x23_def w_def y11_def y22_def y33_def y12_def y13_def y23_def
    by (simp_all add: finite_metric_at_def isfinite_iff[symmetric])
  have z: "ddz m c f p = Fin 0" for f by (simp add: ddz_def scalar_def)
  note defs = christoffel_def Let_def christoffel_std_def christoffel_term_def con_def cov_def
    partial_def plus_fun_def times_fun_def fun_diff_def scalar_def
  show ?thesis
    by (simp add: defs v z field_simps)
qed

text \<open>
  Claim C1, at the input where the code departs from it. On the example mesh (central
  differences) with the sheared metric, \<open>geometry\<close> stores \<open>G2_22 = 172/225\<close> at the
  interior point \<open>(2, 2)\<close>, where the standard Christoffel symbol built from derivatives
  of the covariant metric is \<open>-4/9\<close>: the source's formula for \<open>G2_22\<close> differentiates the
  contravariant \<open>g23\<close> where \<open>G1_22\<close> and \<open>G3_22\<close> differentiate the covariant \<open>g_23\<close>.
\<close>

theorem christoffel_G2_22_failing_input:
  "G2_22 (christoffel mesh_ex coords_shear) (2, 2) = Fin (172 / 225) \<and>
   christoffel_std mesh_ex coords_shear 2 2 2 (2, 2) = Fin (- (4 / 9))"
proof -
  have "G2_22 (christoffel mesh_ex coords_shear) (2, 2) = Fin (172 / 225)"
    by (simp add: christoffel_def Let_def ddx_def ddy_def ddz_def fdiv_def)
       (simp add: mesh_ex_def central_x_def central_y_def coords_shear_def coords_flat_def field_ops)
  moreover have "christoffel_std mesh_ex coords_shear 2 2 2 (2, 2) = Fin (- (4 / 9))"
    by (simp add: christoffel_std_def christoffel_term_def con_def cov_def partial_def
           ddx_def ddy_def ddz_def fdiv_def)
       (simp add: mesh_ex_def central_x_def central_y_def coords_shear_def coords_flat_def field_ops)
  ultimately show ?thesis by simp
qed

section \<open>Parallel divergence\<close>

lemma fdiv_pointwise:
  "fdiv f b = \<lparr>fvals = (\<lambda>p. fvals f p / b p), floc = floc f\<rparr>"
  by (cases f) (simp add: fdiv_def field_ops)

lemma fmul_pointwise:
  "fmul b g = \<lparr>fvals = (\<lambda>p. b p * fvals g p), floc = floc g\<rparr>"
  by (cases g) (simp add: fmul_def field_ops)

lemma Div_par_via_Grad_par:
  "Div_par m coords c f outloc = Inr r \<longleftrightarrow>
      (\<exists>g. Grad_par m c (fdiv f (Bxy (coords (floc f)))) outloc = Inr g \<and> r = fmul (Bxy c) g)"
  "(\<exists>e. Div_par m coords c f outloc = Inl e) \<longleftrightarrow>
      (\<exists>e. Grad_par m c (fdiv f (Bxy (coords (floc f)))) outloc = Inl e)"
  by (auto simp: Div_par_def Grad_par_def Let_def split: sum.splits if_splits)

lemma Div_par_3D_via_Grad_par:
  "Div_par_3D m coords c f3 outloc = Inr r3 \<longleftrightarrow>
      (\<exists>g. Grad_par_3D m c (quotient_3D f3 (Bxy (coords (floc3 f3)))) outloc = Inr g
           \<and> r3 = fmul3 (Bxy c) g)"
  "(\<exists>e. Div_par_3D m coords c f3 outloc = Inl e) \<longleftrightarrow>
      (\<exists>e. Grad_par_3D m c (quotient_3D f3 (Bxy (coords (floc3 f3)))) outloc = Inl e)"
proof -
  have q: "(case yupydown f3 of
              SameField \<Rightarrow> fdiv3 f3 b\<lparr>yupydown := SameField\<rparr>
            | Distinct u d \<Rightarrow> fdiv3 f3 b\<lparr>yupydown := Distinct (div3 u b) (div3 d b)\<rparr>
            | NoYupYdown \<Rightarrow> fdiv3 f3 b) = quotient_3D f3 b" for b
    by (cases "yupydown f3") (simp_all add: fdiv3_def quotient_3D_def)
  have q0: "yupydown f3 = NoYupYdown \<Longrightarrow> fdiv3 f3 b = quotient_3D f3 b" for b
    by (simp add: fdiv3_def quotient_3D_def)
  show "Div_par_3D m coords c f3 outloc = Inr r3 \<longleftrightarrow>
      (\<exists>g. Grad_par_3D m c (quotient_3D f3 (Bxy (coords (floc3 f3)))) outloc = Inr g
           \<and> r3 = fmul3 (Bxy c) g)"
    unfolding Div_par_3D_def Let_def q
    by (auto simp: q0 Grad_par_3D_def split: sum.splits if_splits)
  show "(\<exists>e. Div_par_3D m coords c f3 outloc = Inl e) \<longleftrightarrow>
      (\<exists>e. Grad_par_3D m c (quotient_3D f3 (Bxy (coords (floc3 f3)))) outloc = Inl e)"
    unfolding Div_par_3D_def Let_def q
    by (auto simp: q0 Grad_par_3D_def split: sum.splits if_splits)
qed

text \<open>
  Claim C9. For every field \<open>f\<close>, \<open>Div_par(f)\<close> is \<open>Bxy * Grad_par(f / Bxy_floc)\<close>, where
  \<open>Bxy_floc\<close> is \<open>Bxy\<close> of the Geometry at the location of \<open>f\<close> (looked up by the
  location tag of \<open>f\<close>) and the outer \<open>Bxy\<close> is the operator's own. Value by value:
  \<open>Div_par\<close> returns \<open>r\<close> exactly when \<open>Grad_par\<close>, called on the field that holds
  \<open>f(p) / Bxy_floc(p)\<close> at every \<open>p\<close>, returns some \<open>g\<close> and \<open>r\<close> holds
  \<open>Bxy(p) * g(p)\<close> at every \<open>p\<close>; it fails exactly when that \<open>Grad_par\<close> fails. For a
  \<open>Field3D\<close> the quotient is \<open>f\<close> with its parallel slices, all divided by \<open>Bxy_floc\<close>
  at every \<open>(x, y, z)\<close>.
\<close>

theorem Div_par_normalisation:
  "(Div_par m coords c f outloc = Inr r \<longleftrightarrow>
      (\<exists>g. Grad_par m c
              \<lparr>fvals = (\<lambda>p. fvals f p / Bxy (coords (floc f)) p), floc = floc f\<rparr> outloc = Inr g \<and>
           r = \<lparr>fvals = (\<lambda>p. Bxy c p * fvals g p), floc = floc g\<rparr>)) \<and>
   ((\<exists>e. Div_par m coords c f outloc = Inl e) \<longleftrightarrow>
      (\<exists>e. Grad_par m c
              \<lparr>fvals = (\<lambda>p. fvals f p / Bxy (coords (floc f)) p), floc = floc f\<rparr> outloc = Inl e)) \<and>
   (Div_par_3D m coords c f3 outloc = Inr r3 \<longleftrightarrow>
      (\<exists>g. Grad_par_3D m c
              \<lparr>fvals3 = (\<lambda>(x, y, z). fvals3 f3 (x, y, z) / Bxy (coords (floc3 f3)) (x, y)),
               floc3 = floc3 f3,
               yupydown =
                 (case yupydown f3 of
                    NoYupYdown \<Rightarrow> NoYupYdown
                  | SameField \<Rightarrow> SameField
                  | Distinct u d \<Rightarrow>
                      Distinct (\<lambda>(x, y, z). u (x, y, z) / Bxy (coords (floc3 f3)) (x, y))
                               (\<lambda>(x, y, z). d (x, y, z) / Bxy (coords (floc3 f3)) (x, y)))\<rparr>
              outloc = Inr g \<and>
           r3 = \<lparr>fvals3 = (\<lambda>(x, y, z). Bxy c (x, y) * fvals3 g (x, y, z)), floc3 = floc3 g,
                 yupydown = NoYupYdown\<rparr>)) \<and>
   ((\<exists>e. Div_par_3D m coords c f3 outloc = Inl e) \<longleftrightarrow>
      (\<exists>e. Grad_par_3D m c
              \<lparr>fvals3 = (\<lambda>(x, y, z). fvals3 f3 (x, y, z) / Bxy (coords (floc3 f3)) (x, y)),
               floc3 = floc3 f3,
               yupydown =
                 (case yupydown f3 of
                    NoYupYdown \<Rightarrow> NoYupYdown
                  | SameField \<Rightarrow> SameField
                  | Distinct u d \<Rightarrow>
                      Distinct (\<lambda>(x, y, z). u (x, y, z) / Bxy (coords (floc3 f3)) (x, y))
                               (\<lambda>(x, y, z). d (x, y, z) / Bxy (coords (floc3 f3)) (x, y)))\<rparr>
              outloc = Inl e))"
proof -
  have q2: "\<lparr>fvals = (\<lambda>p. fvals f p / Bxy (coords (floc f)) p), floc = floc f\<rparr>
              = fdiv f (Bxy (coords (floc f)))"
    by (simp add: fdiv_pointwise)
  have q3: "\<lparr>fvals3 = (\<lambda>(x, y, z). fvals3 f3 (x, y, z) / Bxy (coords (floc3 f3)) (x, y)),
               floc3 = floc3 f3,
               yupydown =
                 (case yupydown f3 of
                    NoYupYdown \<Rightarrow> NoYupYdown
                  | SameField \<Rightarrow> SameField
                  | Distinct u d \<Rightarrow>
                      Distinct (\<lambda>(x, y, z). u (x, y, z) / Bxy (coords (floc3 f3)) (x, y))
                               (\<lambda>(x, y, z). d (x, y, z) / Bxy (coords (floc3 f3)) (x, y)))\<rparr>
             = quotient_3D f3 (Bxy (coords (floc3 f3)))"
    by (cases "yupydown f3") (simp_all add: quotient_3D_def div3_def)
  have m3: "fmul3 b g = \<lparr>fvals3 = (\<lambda>(x, y, z). b (x, y) * fvals3 g (x, y, z)), floc3 = floc3 g,
                 yupydown = NoYupYdown\<rparr>" for b g
    by (simp add: fmul3_def mul3_def)
  show ?thesis
    unfolding q2 q3 Div_par_via_Grad_par Div_par_3D_via_Grad_par
    by (simp add: fmul_pointwise m3)
qed


text \<open>
  With \<open>f\<close> at \<open>CELL_CENTRE\<close> and the operator at \<open>CELL_YLOW\<close> the divisor is 2 and the
  multiplier 4: \<open>Grad_par\<close> of \<open>y / 2\<close> is 1/2 and \<open>Div_par\<close> holds 2 at the interior
  point, for the \<open>Field2D\<close> and for the \<open>Field3D\<close>.
\<close>

theorem Div_par_normalisation_witness:
  "Bxy (coords_ex (floc field_y)) (2, 2) = Fin 2 \<and> Bxy (coords_ex CELL_YLOW) (2, 2) = Fin 4 \<and>
   (\<exists>r. Div_par mesh_ex coords_ex (coords_ex CELL_YLOW) field_y CELL_YLOW = Inr r \<and>
        fvals r (2, 2) = Fin 2) \<and>
   Bxy (coords_ex (floc3 field3_y)) (2, 2) = Fin 2 \<and>
   (\<exists>r3. Div_par_3D mesh_ex coords_ex (coords_ex CELL_YLOW) field3_y CELL_YLOW = Inr r3 \<and>
        fvals3 r3 (2, 2, 0) = Fin 2)"
proof -
  let ?c = "coords_ex CELL_YLOW"
  let ?q = "\<lparr>fvals = (\<lambda>p. fvals field_y p / Bxy (coords_ex (floc field_y)) p), floc = floc field_y\<rparr>"
  have B: "Bxy (coords_ex (floc field_y)) (2, 2) = Fin 2" "Bxy ?c (2, 2) = Fin 4"
    "Bxy (coords_ex (floc3 field3_y)) (2, 2) = Fin 2"
    by (simp_all add: coords_ex_def field_y_def field3_y_def coords_flat_def scalar_def)
  have "\<exists>g. Grad_par mesh_ex ?c ?q CELL_YLOW = Inr g \<and> fvals g (2, 2) = Fin (1 / 2)"
    by (simp add: Grad_par_def DDY_def coords_ex_def field_y_def fdiv_def coords_flat_def
        mesh_ex_def central_y_def field_ops)
  then obtain g where g: "Grad_par mesh_ex ?c ?q CELL_YLOW = Inr g" "fvals g (2, 2) = Fin (1 / 2)"
    by blast
  let ?r = "\<lparr>fvals = (\<lambda>p. Bxy ?c p * fvals g p), floc = floc g\<rparr>"
  have d: "Div_par mesh_ex coords_ex ?c field_y CELL_YLOW = Inr ?r"
    by (rule iffD2[OF conjunct1[OF Div_par_normalisation]], rule exI[of _ g], rule conjI,
        rule g(1), rule refl)
  have v: "fvals ?r (2, 2) = Fin 2"
    using g(2) B(2) by simp
  let ?q3 = "\<lparr>fvals3 = (\<lambda>(x, y, z). fvals3 field3_y (x, y, z) / Bxy (coords_ex (floc3 field3_y)) (x, y)),
               floc3 = floc3 field3_y,
               yupydown =
                 (case yupydown field3_y of
                    NoYupYdown \<Rightarrow> NoYupYdown
                  | SameField \<Rightarrow> SameField
                  | Distinct u d \<Rightarrow>
                      Distinct (\<lambda>(x, y, z). u (x, y, z) / Bxy (coords_ex (floc3 field3_y)) (x, y))
                               (\<lambda>(x, y, z). d (x, y, z) / Bxy (coords_ex (floc3 field3_y)) (x, y)))\<rparr>"
  have "\<exists>g. Grad_par_3D mesh_ex ?c ?q3 CELL_YLOW = Inr g \<and> fvals3 g (2, 2, 0) = Fin (1 / 2)"
    by (simp add: Grad_par_3D_def coords_ex_def field3_y_def fdiv3_def div3_def coords_flat_def
        mesh_ex_def central_y_3D_def field_ops)
  then obtain g3 where
    g3: "Grad_par_3D mesh_ex ?c ?q3 CELL_YLOW = Inr g3" "fvals3 g3 (2, 2, 0) = Fin (1 / 2)"
    by blast
  let ?r3 = "\<lparr>fvals3 = (\<lambda>(x, y, z). Bxy ?c (x, y) * fvals3 g3 (x, y, z)), floc3 = floc3 g3,
                 yupydown = NoYupYdown\<rparr>"
  have d3: "Div_par_3D mesh_ex coords_ex ?c field3_y CELL_YLOW = Inr ?r3"
    by (rule iffD2[OF conjunct1[OF conjunct2[OF conjunct2[OF Div_par_normalisation]]]],
        rule exI[of _ g3], rule conjI, rule g3(1), rule refl)
  have v3: "fvals3 ?r3 (2, 2, 0) = Fin 2"
    using g3(2) B(2) by simp
  from d v have e2: "\<exists>r. Div_par mesh_ex coords_ex ?c field_y CELL_YLOW = Inr r \<and>
        fvals r (2, 2) = Fin 2"
    by (intro exI[of _ ?r] conjI)
  from d3 v3 have e3: "\<exists>r3. Div_par_3D mesh_ex coords_ex ?c field3_y CELL_YLOW = Inr r3 \<and>
        fvals3 r3 (2, 2, 0) = Fin 2"
    by (intro exI[of _ ?r3] conjI)
  from B e2 e3 show ?thesis by (intro conjI)
qed

text \<open>
  With \<open>f\<close> at \<open>CELL_CENTRE\<close> and the operator at \<open>CELL_YLOW\<close> the divisor (2) and the
  multiplier (4) come from two objects. With the default output location the \<open>Field2D\<close>
  operator does not accept a staggered argument: the assertion of \<open>Grad_par\<close> fails.
\<close>

lemma Div_par_staggered_example:
  "\<exists>r. Div_par mesh_ex coords_ex (coords_ex CELL_YLOW) field_y CELL_YLOW = Inr r \<and>
        fvals r (2, 2) = Fin 2 \<and>
        Bxy (coords_ex (floc field_y)) (2, 2) = Fin 2 \<and> Bxy (coords_ex CELL_YLOW) (2, 2) = Fin 4"
  by (simp add: Div_par_def Grad_par_def DDY_def Let_def coords_ex_def field_y_def fdiv_def fmul_def
      coords_flat_def mesh_ex_def central_y_def field_ops)

lemma Div_par_default_location_staggered:
  "Div_par mesh_ex coords_ex (coords_ex CELL_YLOW) field_y CELL_DEFAULT =
     Inl (AssertFailed
       ''location == outloc || (outloc == CELL_DEFAULT && location == var.getLocation())'')"
  by (simp add: Div_par_def Grad_par_def DDY_def Let_def coords_ex_def field_y_def fdiv_def fmul_def
      coords_flat_def)


section \<open>interpolateAndExtrapolate leaves its argument alone\<close>

lemma fold_preserves:
  assumes "\<And>x s. Q s \<Longrightarrow> Q (f x s)" "Q s"
  shows "Q (fold f xs s)"
  using assms(2) by (induction xs arbitrary: s) (auto intro: assms(1))

lemma foldE_preserves:
  assumes "\<And>x s s1. Q s \<Longrightarrow> f x s = Inr s1 \<Longrightarrow> Q s1" "Q s" "foldE f xs s = Inr s1"
  shows "Q s1"
  using assms(2,3)
proof (induction xs arbitrary: s)
  case Nil
  then show ?case by simp
next
  case (Cons x xs)
  then show ?case
    by (auto split: sum.splits dest: assms(1))
qed

lemma keeps_refl [simp]: "keeps a h h"
  by (simp add: keeps_def)

lemma keeps_trans: "keeps a h h1 \<Longrightarrow> keeps a h1 h2 \<Longrightarrow> keeps a h h2"
  by (simp add: keeps_def)

lemma keeps_wr: "keeps (ref_data r) h (wr r p v h)"
  by (simp add: keeps_def wr_def)

lemma keeps_wr': "keeps (ref_data r) h0 h \<Longrightarrow> keeps (ref_data r) h0 (wr r p v h)"
  using keeps_trans keeps_wr by blast

lemma keeps_communicate: "keeps (ref_data r) h0 h \<Longrightarrow> keeps (ref_data r) h0 (communicate_ref m r h)"
  by (simp add: keeps_def communicate_ref_def)

lemma keeps_extrapolate_cubic:
  "keeps (ref_data r) h0 h \<Longrightarrow> keeps (ref_data r) h0 (extrapolate_cubic r b p is h)"
proof (induction "is" arbitrary: h)
  case Nil
  then show ?case by (cases p) simp
next
  case (Cons i "is")
  then show ?case by (cases p) (simp add: Let_def keeps_wr')
qed

lemma keeps_extrapolate_const:
  "keeps (ref_data r) h0 h \<Longrightarrow> keeps (ref_data r) h0 (extrapolate_const r b p is h)"
proof (induction "is" arbitrary: h)
  case Nil
  then show ?case by (cases p) simp
next
  case (Cons i "is")
  then show ?case by (cases p) (simp add: keeps_wr')
qed

lemma keeps_bndry_point:
  assumes "keeps (ref_data r) h0 h" "bndry_point m f r b es p h = Inr h1"
  shows "keeps (ref_data r) h0 h1"
  using assms
  by (auto simp: bndry_point_def Let_def keeps_extrapolate_cubic keeps_extrapolate_const keeps_wr'
      split: if_splits)

lemma keeps_extrapolate_boundaries:
  assumes "keeps (ref_data r) h0 h" "extrapolate_boundaries m f r loc h = Inr h1"
  shows "keeps (ref_data r) h0 h1"
proof -
  have inner: "keeps (ref_data r) h0 s1"
    if "keeps (ref_data r) h0 s" "foldE (bndry_point m f r b es) ps s = Inr s1" for s s1 b es ps
    using that(1) foldE_preserves[where Q = "keeps (ref_data r) h0", OF _ that(1) that(2)]
      keeps_bndry_point by blast
  show ?thesis
    using assms(2) unfolding extrapolate_boundaries_def
    by (rule foldE_preserves[where Q = "keeps (ref_data r) h0", rotated 2]) (auto intro: inner assms(1))
qed

lemma keeps_branch_cut_column:
  assumes "keeps (ref_data r) h0 h"
  shows "keeps (ref_data r) h0 (branch_cut_column m f r loc i h)"
proof -
  have f1: "keeps (ref_data r) h0 (fold (\<lambda>j h. wr r (g j) (v j h) h) js s)"
    if "keeps (ref_data r) h0 s" for g :: "int \<Rightarrow> ind" and v js s
    using that by (rule fold_preserves[where Q = "keeps (ref_data r) h0", rotated]) (rule keeps_wr')
  show ?thesis
    unfolding branch_cut_column_def Let_def
    by (auto intro!: f1 keeps_wr' assms)
qed

lemma keeps_corner_guard_cells:
  assumes "keeps (ref_data r) h0 h"
  shows "keeps (ref_data r) h0 (corner_guard_cells m r h)"
  unfolding corner_guard_cells_def
  by (rule fold_preserves[where Q = "keeps (ref_data r) h0"]) (auto intro: keeps_wr' assms)

lemma interp_to_ref_frame:
  assumes "interp_to_ref m h f loc = (h1, r0)"
  shows "nxt h \<le> nxt h1 \<and> (\<forall>a<nxt h. blocks h1 a = blocks h a)"
  using assms
  by (auto simp: interp_to_ref_def new_block_def Let_def split: option.splits)

lemma allocate_frame:
  assumes "allocate h f = (h1, r)"
  shows "ref_data r = nxt h \<and> (\<forall>a<nxt h. blocks h1 a = blocks h a)"
  using assms by (auto simp: allocate_def new_block_def Let_def)

text \<open>
  Claim C10. \<open>interpolateAndExtrapolate\<close> never modifies its input field: when the call
  returns, the value of \<open>f\<close> at every index pair is what it was before the call, for
  every field, target location and branch-cut flag, and whether or not \<open>interp_to\<close> hands
  back a field that shares the data of \<open>f\<close>. Indeed no block that existed before the
  call has changed, and the result refers to a block handed out during the call: the
  halo exchange, the boundary extrapolation, the branch-cut rows and the corner cells
  are all written there. The input field is a field of the store (\<open>ref_data f < nxt h\<close>).
\<close>

theorem interpolateAndExtrapolate_frame:
  assumes alloc: "ref_data f < nxt h"
    and ret: "interpolateAndExtrapolate m h f loc extrap_at_branch_cut = Inr (h_out, result)"
  shows "(\<forall>p. rd h_out f p = rd h f p) \<and> (\<forall>a<nxt h. blocks h_out a = blocks h a) \<and>
         nxt h \<le> ref_data result \<and> ref_data result \<noteq> ref_data f"
proof -
  obtain h1 r0 where i: "interp_to_ref m h f loc = (h1, r0)" by (cases "interp_to_ref m h f loc")
  obtain h2 r where a: "allocate h1 r0 = (h2, r)" by (cases "allocate h1 r0")
  let ?h3 = "communicate_ref m r h2"
  define step5 where "step5 = (\<lambda>h4. if extrap_at_branch_cut
      then fold (branch_cut_column m f r loc) [xstart m .. xend m] h4 else h4)"
  have eq: "interpolateAndExtrapolate m h f loc extrap_at_branch_cut =
      (case extrapolate_boundaries m f r loc ?h3 of
         Inl e \<Rightarrow> Inl e
       | Inr h4 \<Rightarrow> Inr (corner_guard_cells m r (step5 h4), r))"
    by (simp add: interpolateAndExtrapolate_def i a Let_def step5_def split: sum.splits)
  obtain h4 where b: "extrapolate_boundaries m f r loc ?h3 = Inr h4"
    using ret unfolding eq by (cases "extrapolate_boundaries m f r loc ?h3") simp_all
  from ret have pr: "(corner_guard_cells m r (step5 h4), r) = (h_out, result)"
    unfolding eq b by (simp only: sum.case sum.inject)
  have out: "h_out = corner_guard_cells m r (step5 h4)" and res: "result = r"
    using pr[unfolded prod.inject] by blast+
  have k3: "keeps (ref_data r) h2 ?h3" by (rule keeps_communicate) simp
  have k4: "keeps (ref_data r) h2 h4" by (rule keeps_extrapolate_boundaries[OF k3 b])
  have k5: "keeps (ref_data r) h2 (step5 h4)"
    unfolding step5_def using k4
    by (auto intro: fold_preserves[where Q = "keeps (ref_data r) h2"] keeps_branch_cut_column)
  have k6: "keeps (ref_data r) h2 h_out"
    unfolding out by (rule keeps_corner_guard_cells[OF k5])
  from interp_to_ref_frame[OF i] have f1: "nxt h \<le> nxt h1" "\<forall>a<nxt h. blocks h1 a = blocks h a"
    by auto
  from allocate_frame[OF a] have f2: "ref_data r = nxt h1" "\<forall>a<nxt h1. blocks h2 a = blocks h1 a"
    by auto
  have old: "blocks h_out a = blocks h a" if "a < nxt h" for a
  proof -
    from that f1(1) f2(1) have "a \<noteq> ref_data r" "a < nxt h1" by auto
    with k6 f2(2) f1(2) that show ?thesis by (simp add: keeps_def)
  qed
  from old alloc have "\<forall>p. rd h_out f p = rd h f p" by (simp add: rd_def)
  moreover from f1(1) f2(1) alloc res have "nxt h \<le> ref_data result" "ref_data result \<noteq> ref_data f"
    by auto
  ultimately show ?thesis using old by blast
qed

theorem interpolateAndExtrapolate_frame_witness:
  "ref_data \<lparr>ref_data = 0, ref_loc = CELL_CENTRE\<rparr> < nxt (heap_of (scalar (Fin 1))) \<and>
   (\<exists>h_out result.
      interpolateAndExtrapolate mesh_ex (heap_of (scalar (Fin 1)))
        \<lparr>ref_data = 0, ref_loc = CELL_CENTRE\<rparr> CELL_YLOW True = Inr (h_out, result) \<and>
      rd h_out \<lparr>ref_data = 0, ref_loc = CELL_CENTRE\<rparr> (0, 0) = Fin 1 \<and>
      rd h_out result (0, 0) = NaN)"
proof -
  let ?f = "\<lparr>ref_data = 0, ref_loc = CELL_CENTRE\<rparr>"
  let ?h = "heap_of (scalar (Fin 1))"
  have alloc: "ref_data ?f < nxt ?h" by (simp add: heap_of_def)
  obtain h_out result where ret:
    "interpolateAndExtrapolate mesh_ex ?h ?f CELL_YLOW True = Inr (h_out, result)"
    by (simp add: interpolateAndExtrapolate_def interp_to_ref_def allocate_def new_block_def
        extrapolate_boundaries_def mesh_ex_def Let_def)
  have nan: "rd h_out result (0, 0) = NaN"
    using ret
    by (auto simp: interpolateAndExtrapolate_def interp_to_ref_def allocate_def new_block_def
        extrapolate_boundaries_def mesh_ex_def Let_def communicate_ref_def branch_cut_column_def
        corner_guard_cells_def rd_def wr_def heap_of_def BoutNaN_def upto.simps)
  from interpolateAndExtrapolate_frame [OF alloc ret]
  have "rd h_out ?f (0, 0) = rd ?h ?f (0, 0)" by blast
  then have "rd h_out ?f (0, 0) = Fin 1" by (simp add: rd_def heap_of_def scalar_def)
  with alloc ret nan show ?thesis by blast
qed


section \<open>Extrapolation at a boundary point\<close>

lemma rd_wr_same [simp]: "rd (wr r p v h) r q = (if q = p then v else rd h r q)"
  by (simp add: rd_def wr_def)

lemma bndry_cell_inj:
  assumes "bx b \<noteq> 0 \<or> by' b \<noteq> 0"
  shows "bndry_cell b p i = bndry_cell b p j \<longleftrightarrow> i = j"
  using assms by (auto simp: bndry_cell_def)

lemma bndry_cell_0 [simp]: "bndry_cell b p 0 = p"
  by (simp add: bndry_cell_def)

lemma extrapolate_cubic_Cons:
  "extrapolate_cubic r b p (i # is) h =
     extrapolate_cubic r b p is
       (wr r (bndry_cell b p i)
          (Fin 3 * rd h r (bndry_cell b p (i - 1)) - Fin 3 * rd h r (bndry_cell b p (i - 2))
             + rd h r (bndry_cell b p (i - 3))) h)"
  by (cases p) (simp add: bndry_cell_def Let_def algebra_simps)

lemma extrapolate_cubic_Nil: "extrapolate_cubic r b p [] h = h"
  by (cases p) simp

lemma extrapolate_const_Cons:
  "extrapolate_const r b p (i # is) h =
     extrapolate_const r b p is (wr r (bndry_cell b p i) (rd h r (bndry_cell b p (- 1))) h)"
  by (cases p) (simp add: bndry_cell_def)

lemma extrapolate_const_Nil: "extrapolate_const r b p [] h = h"
  by (cases p) simp

lemma extrapolate_cubic_other:
  assumes "q \<notin> bndry_cell b p ` set is"
  shows "rd (extrapolate_cubic r b p is h) r q = rd h r q"
  using assms
  by (induction "is" arbitrary: h) (auto simp: extrapolate_cubic_Cons extrapolate_cubic_Nil)

lemma extrapolate_const_other:
  assumes "q \<notin> bndry_cell b p ` set is"
  shows "rd (extrapolate_const r b p is h) r q = rd h r q"
  using assms
  by (induction "is" arbitrary: h) (auto simp: extrapolate_const_Cons extrapolate_const_Nil)

lemma extrapolate_cubic_rule:
  assumes nz: "bx b \<noteq> 0 \<or> by' b \<noteq> 0"
    and inc: "sorted_wrt (<) is"
    and i: "i \<in> set is"
  shows "rd (extrapolate_cubic r b p is h) r (bndry_cell b p i) =
           Fin 3 * rd (extrapolate_cubic r b p is h) r (bndry_cell b p (i - 1))
             - Fin 3 * rd (extrapolate_cubic r b p is h) r (bndry_cell b p (i - 2))
             + rd (extrapolate_cubic r b p is h) r (bndry_cell b p (i - 3))"
  using inc i
proof (induction "is" arbitrary: h)
  case Nil
  then show ?case by simp
next
  case (Cons j js)
  let ?h1 = "wr r (bndry_cell b p j)
          (Fin 3 * rd h r (bndry_cell b p (j - 1)) - Fin 3 * rd h r (bndry_cell b p (j - 2))
             + rd h r (bndry_cell b p (j - 3))) h"
  show ?case
  proof (cases "i \<in> set js")
    case True
    with Cons show ?thesis by (simp add: extrapolate_cubic_Cons)
  next
    case False
    with Cons.prems have ij: "i = j" by simp
    have later: "\<forall>k\<in>set js. j < k" using Cons.prems(1) by simp
    have out: "bndry_cell b p (j - d) \<notin> bndry_cell b p ` set js" if "0 \<le> d" for d
      using later that by (auto simp: bndry_cell_inj[OF nz])
    have keep: "rd (extrapolate_cubic r b p js ?h1) r (bndry_cell b p (j - d))
                 = rd ?h1 r (bndry_cell b p (j - d))" if "0 \<le> d" for d
      by (rule extrapolate_cubic_other[OF out[OF that]])
    have ne: "bndry_cell b p (j - d) \<noteq> bndry_cell b p j" if "0 < d" for d
      using that by (simp add: bndry_cell_inj[OF nz])
    show ?thesis
      unfolding ij extrapolate_cubic_Cons
      using keep[of 0] keep[of 1] keep[of 2] keep[of 3] ne[of 1] ne[of 2] ne[of 3]
      by simp
  qed
qed

lemma extrapolate_const_rule:
  assumes nz: "bx b \<noteq> 0 \<or> by' b \<noteq> 0"
    and pos: "\<forall>k\<in>set is. 0 \<le> k"
    and i: "i \<in> set is"
  shows "rd (extrapolate_const r b p is h) r (bndry_cell b p i) = rd h r (bndry_cell b p (- 1))
       \<and> rd (extrapolate_const r b p is h) r (bndry_cell b p (- 1)) = rd h r (bndry_cell b p (- 1))"
  using pos i
proof (induction "is" arbitrary: h)
  case Nil
  then show ?case by simp
next
  case (Cons j js)
  let ?h1 = "wr r (bndry_cell b p j) (rd h r (bndry_cell b p (- 1))) h"
  have m1: "bndry_cell b p (- 1) \<noteq> bndry_cell b p j"
    using Cons.prems(1) by (simp add: bndry_cell_inj[OF nz])
  then have base: "rd ?h1 r (bndry_cell b p (- 1)) = rd h r (bndry_cell b p (- 1))" by simp
  have m1': "bndry_cell b p (- 1) \<notin> bndry_cell b p ` set js"
    using Cons.prems(1) by (auto simp: bndry_cell_inj[OF nz])
  show ?case
  proof (cases "i \<in> set js")
    case True
    with Cons show ?thesis by (simp add: extrapolate_const_Cons base)
  next
    case False
    with Cons.prems have ij: "i = j" by simp
    from False ij have "bndry_cell b p j \<notin> bndry_cell b p ` set js"
      by (auto simp: bndry_cell_inj[OF nz])
    then show ?thesis
      unfolding ij extrapolate_const_Cons
      by (simp add: extrapolate_const_other m1' base)
  qed
qed

lemma extrap_start_cases: "extrap_start_of loc b = 0 \<or> extrap_start_of loc b = 1"
  by (simp add: extrap_start_of_def)

lemma extrap_start_normal: "extrap_start_of loc b = 1 \<Longrightarrow> bx b \<noteq> 0 \<or> by' b \<noteq> 0"
  by (auto simp: extrap_start_of_def split: if_splits)

lemma bndry_point_cases:
  "bndry_point m f r b es p h =
     (if global_points_suffice m b
      then if single_local_point m b
           then Inl (BoutException (if bx b \<noteq> 0 \<and> LocalNx m = 1 \<and> width b = 1
                                    then not_enough_x else not_enough_y))
           else Inr (extrapolate_cubic r b p [es .. width b - 1]
                  (if 0 < es then wr r p (interp_bndry_point h f b p) h else h))
      else Inr (extrapolate_const r b p [es .. width b - 1]
             (if 0 < es then wr r p (interp_bndry_point h f b p) h else h)))"
  by (auto simp: bndry_point_def global_points_suffice_def single_local_point_def Let_def)

lemmas iae_eval =
  interpolateAndExtrapolate_val_def interpolateAndExtrapolate_def interp_to_ref_def allocate_def
  new_block_def extrapolate_boundaries_def Let_def communicate_ref_def branch_cut_column_def
  corner_guard_cells_def rd_def wr_def heap_of_def field_of_def BoutNaN_def upto.simps
  bndry_point_def interp_bndry_point_def extrap_start_of_def values_at_def

text \<open>
  Claim C7, amended. At a boundary point of a true domain boundary whose normal matches
  the offset of the staggered target (\<open>extrap_start = 1\<close>) the loop body first writes
  \<open>(9*(a + b) - c - d)/16\<close> of the source field to the boundary point, \<open>a\<close> and \<open>b\<close> the
  values next inside and at the point, \<open>c\<close> and \<open>d\<close> the values two inside and one
  outside. Then, where the global grid has at least 3 points in the direction of the
  normal once twice the boundary width is taken off, it throws if the local grid has a
  single point in that direction and the boundary has width 1, and otherwise every
  remaining guard-cell layer \<open>n\<close> holds \<open>3*result[n-1] - 3*result[n-2] + result[n-3]\<close>;
  where the global grid has fewer points, every remaining layer holds the value of the
  last cell inside. So the body throws exactly in the one case, and whenever it completes
  the boundary point holds the average and the layers the values of its branch.
\<close>

theorem boundary_point_then_cubic:
  assumes match: "extrap_start_of loc bndry = 1"
  shows "((\<exists>e. bndry_point m f result bndry (extrap_start_of loc bndry) p h = Inl e) \<longleftrightarrow>
            global_points_suffice m bndry \<and> single_local_point m bndry) \<and>
         (\<forall>h1. bndry_point m f result bndry (extrap_start_of loc bndry) p h = Inr h1 \<longrightarrow>
            rd h1 result p =
              (Fin 9 * (rd h f (bndry_cell bndry p (- 1)) + rd h f p)
                 - rd h f (bndry_cell bndry p (- 2)) - rd h f (bndry_cell bndry p 1)) / Fin 16 \<and>
            (\<forall>n. 1 \<le> n \<and> n < width bndry \<longrightarrow>
               rd h1 result (bndry_cell bndry p n) =
                 (if global_points_suffice m bndry
                  then Fin 3 * rd h1 result (bndry_cell bndry p (n - 1))
                         - Fin 3 * rd h1 result (bndry_cell bndry p (n - 2))
                         + rd h1 result (bndry_cell bndry p (n - 3))
                  else rd h1 result (bndry_cell bndry p (- 1)))))"
proof -
  have nz: "bx bndry \<noteq> 0 \<or> by' bndry \<noteq> 0" by (rule extrap_start_normal[OF match])
  let ?v = "interp_bndry_point h f bndry p"
  let ?h0 = "wr result p ?v h"
  let ?is = "[1 .. width bndry - 1]"
  let ?cub = "extrapolate_cubic result bndry p ?is ?h0"
  let ?con = "extrapolate_const result bndry p ?is ?h0"
  have v: "?v = (Fin 9 * (rd h f (bndry_cell bndry p (- 1)) + rd h f p)
                - rd h f (bndry_cell bndry p (- 2)) - rd h f (bndry_cell bndry p 1)) / Fin 16"
    by (cases p) (simp add: interp_bndry_point_def bndry_cell_def)
  have notp: "p \<notin> bndry_cell bndry p ` set ?is"
    using bndry_cell_inj[OF nz, of p 0] by auto
  have cub_p: "rd ?cub result p = ?v"
    using extrapolate_cubic_other[OF notp, of result ?h0] by simp
  have con_p: "rd ?con result p = ?v"
    using extrapolate_const_other[OF notp, of result ?h0] by simp
  have cub_n: "rd ?cub result (bndry_cell bndry p n) =
                Fin 3 * rd ?cub result (bndry_cell bndry p (n - 1))
                  - Fin 3 * rd ?cub result (bndry_cell bndry p (n - 2))
                  + rd ?cub result (bndry_cell bndry p (n - 3))"
    if "1 \<le> n" "n < width bndry" for n
    using that by (intro extrapolate_cubic_rule[OF nz]) simp_all
  have con_n: "rd ?con result (bndry_cell bndry p n) = rd ?con result (bndry_cell bndry p (- 1))"
    if "1 \<le> n" "n < width bndry" for n
  proof -
    have "n \<in> set ?is" using that by simp
    moreover have "\<forall>k\<in>set ?is. 0 \<le> k" by simp
    ultimately show ?thesis
      using extrapolate_const_rule[OF nz, of ?is n result p ?h0] by simp
  qed
  have a: "(\<exists>e. bndry_point m f result bndry (extrap_start_of loc bndry) p h = Inl e) \<longleftrightarrow>
            global_points_suffice m bndry \<and> single_local_point m bndry"
    by (simp add: bndry_point_cases)
  have b: "rd h1 result p =
              (Fin 9 * (rd h f (bndry_cell bndry p (- 1)) + rd h f p)
                 - rd h f (bndry_cell bndry p (- 2)) - rd h f (bndry_cell bndry p 1)) / Fin 16 \<and>
            (\<forall>n. 1 \<le> n \<and> n < width bndry \<longrightarrow>
               rd h1 result (bndry_cell bndry p n) =
                 (if global_points_suffice m bndry
                  then Fin 3 * rd h1 result (bndry_cell bndry p (n - 1))
                         - Fin 3 * rd h1 result (bndry_cell bndry p (n - 2))
                         + rd h1 result (bndry_cell bndry p (n - 3))
                  else rd h1 result (bndry_cell bndry p (- 1))))"
    if ret: "bndry_point m f result bndry (extrap_start_of loc bndry) p h = Inr h1" for h1
  proof (cases "global_points_suffice m bndry")
    case True
    with ret have "Inr ?cub = (Inr h1 :: BoutException + Heap)"
      by (simp add: bndry_point_cases match split: if_splits)
    then have h1: "h1 = ?cub" by (simp only: sum.inject)
    show ?thesis unfolding h1 using True cub_p cub_n v by simp
  next
    case False
    with ret have "Inr ?con = (Inr h1 :: BoutException + Heap)"
      by (simp add: bndry_point_cases match)
    then have h1: "h1 = ?con" by (simp only: sum.inject)
    show ?thesis unfolding h1 using False con_p con_n v by simp
  qed
  from a b show ?thesis by blast
qed


text \<open>
  The three cases at the outer x-boundary for \<open>CELL_XLOW\<close> and the field \<open>x * x\<close>: on
  \<open>mesh_split\<close> the average 49/4 and the cubic rule, on \<open>mesh_bx\<close> the average 25/4 and
  the value of the last cell inside, on \<open>mesh_one\<close> the exception.
\<close>

theorem boundary_point_then_cubic_witness:
  "extrap_start_of CELL_XLOW (hd (getBoundaries mesh_split)) = 1 \<and>
   global_points_suffice mesh_split (hd (getBoundaries mesh_split)) \<and>
   (\<exists>h1. bndry_point mesh_split \<lparr>ref_data = 0, ref_loc = CELL_CENTRE\<rparr>
            \<lparr>ref_data = 1, ref_loc = CELL_XLOW\<rparr> (hd (getBoundaries mesh_split))
            (extrap_start_of CELL_XLOW (hd (getBoundaries mesh_split))) (4, 2)
            (heap_of (fvals field_x2)) = Inr h1 \<and>
      rd h1 \<lparr>ref_data = 1, ref_loc = CELL_XLOW\<rparr> (4, 2) = Fin (49 / 4) \<and>
      rd h1 \<lparr>ref_data = 1, ref_loc = CELL_XLOW\<rparr> (5, 2) =
        Fin 3 * rd h1 \<lparr>ref_data = 1, ref_loc = CELL_XLOW\<rparr> (4, 2)
          - Fin 3 * rd h1 \<lparr>ref_data = 1, ref_loc = CELL_XLOW\<rparr> (3, 2)
          + rd h1 \<lparr>ref_data = 1, ref_loc = CELL_XLOW\<rparr> (2, 2)) \<and>
   extrap_start_of CELL_XLOW (hd (getBoundaries mesh_bx)) = 1 \<and>
   \<not> global_points_suffice mesh_bx (hd (getBoundaries mesh_bx)) \<and>
   (\<exists>h1. bndry_point mesh_bx \<lparr>ref_data = 0, ref_loc = CELL_CENTRE\<rparr>
            \<lparr>ref_data = 1, ref_loc = CELL_XLOW\<rparr> (hd (getBoundaries mesh_bx))
            (extrap_start_of CELL_XLOW (hd (getBoundaries mesh_bx))) (3, 2)
            (heap_of (fvals field_x2)) = Inr h1 \<and>
      rd h1 \<lparr>ref_data = 1, ref_loc = CELL_XLOW\<rparr> (3, 2) = Fin (25 / 4) \<and>
      rd h1 \<lparr>ref_data = 1, ref_loc = CELL_XLOW\<rparr> (4, 2) =
        rd h1 \<lparr>ref_data = 1, ref_loc = CELL_XLOW\<rparr> (2, 2)) \<and>
   extrap_start_of CELL_XLOW (hd (getBoundaries mesh_one)) = 1 \<and>
   global_points_suffice mesh_one (hd (getBoundaries mesh_one)) \<and>
   single_local_point mesh_one (hd (getBoundaries mesh_one)) \<and>
   (\<exists>e. bndry_point mesh_one \<lparr>ref_data = 0, ref_loc = CELL_CENTRE\<rparr>
            \<lparr>ref_data = 1, ref_loc = CELL_XLOW\<rparr> (hd (getBoundaries mesh_one))
            (extrap_start_of CELL_XLOW (hd (getBoundaries mesh_one))) (1, 2)
            (heap_of (fvals field_x2)) = Inl e)"
proof -
  let ?F = "\<lparr>ref_data = 0, ref_loc = CELL_CENTRE\<rparr>"
  let ?R = "\<lparr>ref_data = 1, ref_loc = CELL_XLOW\<rparr>"
  let ?h = "heap_of (fvals field_x2)"
  let ?b = "hd (getBoundaries mesh_split)"
  have b: "?b = \<lparr>bx = 1, by' = 0, width = 2, bpoints = [(4, 2)]\<rparr>"
    by (simp add: mesh_split_def)
  have match: "extrap_start_of CELL_XLOW ?b = 1"
    by (simp add: b extrap_start_of_def)
  have enough: "global_points_suffice mesh_split ?b"
    by (simp add: b global_points_suffice_def) (simp add: mesh_split_def mesh_ex_def)
  have several: "\<not> single_local_point mesh_split ?b"
    by (simp add: b single_local_point_def)
  have "\<exists>h1. bndry_point mesh_split ?F ?R ?b (extrap_start_of CELL_XLOW ?b) (4, 2) ?h = Inr h1"
    by (simp add: bndry_point_cases enough several)
  then obtain h1 where
    ret: "bndry_point mesh_split ?F ?R ?b (extrap_start_of CELL_XLOW ?b) (4, 2) ?h = Inr h1"
    by blast
  have v: "(Fin 9 * (rd ?h ?F (bndry_cell ?b (4, 2) (- 1)) + rd ?h ?F (4, 2))
             - rd ?h ?F (bndry_cell ?b (4, 2) (- 2)) - rd ?h ?F (bndry_cell ?b (4, 2) 1)) / Fin 16
           = Fin (49 / 4)"
    by (simp add: b bndry_cell_def rd_def heap_of_def field_x2_def)
  have cells: "bndry_cell ?b (4, 2) 1 = (5, 2)" "bndry_cell ?b (4, 2) (1 - 1) = (4, 2)"
    "bndry_cell ?b (4, 2) (1 - 2) = (3, 2)" "bndry_cell ?b (4, 2) (1 - 3) = (2, 2)"
    by (simp_all add: b bndry_cell_def)
  have w: "(1::int) \<le> 1 \<and> 1 < width ?b" by (simp add: b)
  note t = boundary_point_then_cubic [OF match, of mesh_split ?F ?R "(4, 2)" ?h,
      THEN conjunct2, rule_format, OF ret]
  from t[THEN conjunct1] have at_p: "rd h1 ?R (4, 2) = Fin (49 / 4)"
    unfolding v .
  from t[THEN conjunct2, rule_format, OF w] enough
  have "rd h1 ?R (bndry_cell ?b (4, 2) 1) =
          Fin 3 * rd h1 ?R (bndry_cell ?b (4, 2) (1 - 1))
            - Fin 3 * rd h1 ?R (bndry_cell ?b (4, 2) (1 - 2))
            + rd h1 ?R (bndry_cell ?b (4, 2) (1 - 3))"
    by simp
  then have rule: "rd h1 ?R (5, 2) =
          Fin 3 * rd h1 ?R (4, 2) - Fin 3 * rd h1 ?R (3, 2) + rd h1 ?R (2, 2)"
    unfolding cells .
  have cubic: "\<exists>h1. bndry_point mesh_split ?F ?R ?b (extrap_start_of CELL_XLOW ?b) (4, 2) ?h = Inr h1 \<and>
      rd h1 ?R (4, 2) = Fin (49 / 4) \<and>
      rd h1 ?R (5, 2) = Fin 3 * rd h1 ?R (4, 2) - Fin 3 * rd h1 ?R (3, 2) + rd h1 ?R (2, 2)"
    using ret at_p rule by (intro exI[of _ h1] conjI)
  let ?c = "hd (getBoundaries mesh_bx)"
  have c: "?c = \<lparr>bx = 1, by' = 0, width = 2, bpoints = [(3, 2)]\<rparr>"
    by (simp add: mesh_bx_def)
  have match_c: "extrap_start_of CELL_XLOW ?c = 1"
    by (simp add: c extrap_start_of_def)
  have few: "\<not> global_points_suffice mesh_bx ?c"
    by (simp add: c global_points_suffice_def) (simp add: mesh_bx_def mesh_ex_def)
  have "\<exists>h2. bndry_point mesh_bx ?F ?R ?c (extrap_start_of CELL_XLOW ?c) (3, 2) ?h = Inr h2"
    by (simp add: bndry_point_cases few)
  then obtain h2 where
    ret_c: "bndry_point mesh_bx ?F ?R ?c (extrap_start_of CELL_XLOW ?c) (3, 2) ?h = Inr h2"
    by blast
  have v_c: "(Fin 9 * (rd ?h ?F (bndry_cell ?c (3, 2) (- 1)) + rd ?h ?F (3, 2))
             - rd ?h ?F (bndry_cell ?c (3, 2) (- 2)) - rd ?h ?F (bndry_cell ?c (3, 2) 1)) / Fin 16
           = Fin (25 / 4)"
    by (simp add: c bndry_cell_def rd_def heap_of_def field_x2_def)
  have cells_c: "bndry_cell ?c (3, 2) 1 = (4, 2)" "bndry_cell ?c (3, 2) (- 1) = (2, 2)"
    by (simp_all add: c bndry_cell_def)
  have w_c: "(1::int) \<le> 1 \<and> 1 < width ?c" by (simp add: c)
  note t_c = boundary_point_then_cubic [OF match_c, of mesh_bx ?F ?R "(3, 2)" ?h,
      THEN conjunct2, rule_format, OF ret_c]
  from t_c[THEN conjunct1] have at_p_c: "rd h2 ?R (3, 2) = Fin (25 / 4)"
    unfolding v_c .
  from t_c[THEN conjunct2, rule_format, OF w_c] few
  have "rd h2 ?R (bndry_cell ?c (3, 2) 1) = rd h2 ?R (bndry_cell ?c (3, 2) (- 1))"
    by simp
  then have rule_c: "rd h2 ?R (4, 2) = rd h2 ?R (2, 2)"
    unfolding cells_c .
  have const: "\<exists>h1. bndry_point mesh_bx ?F ?R ?c (extrap_start_of CELL_XLOW ?c) (3, 2) ?h = Inr h1 \<and>
      rd h1 ?R (3, 2) = Fin (25 / 4) \<and> rd h1 ?R (4, 2) = rd h1 ?R (2, 2)"
    using ret_c at_p_c rule_c by (intro exI[of _ h2] conjI)
  let ?d = "hd (getBoundaries mesh_one)"
  have d: "?d = \<lparr>bx = 1, by' = 0, width = 1, bpoints = [(1, 2)]\<rparr>"
    by (simp add: mesh_one_def)
  have match_d: "extrap_start_of CELL_XLOW ?d = 1"
    by (simp add: d extrap_start_of_def)
  have enough_d: "global_points_suffice mesh_one ?d"
    by (simp add: d global_points_suffice_def) (simp add: mesh_one_def mesh_ex_def)
  have single_d: "single_local_point mesh_one ?d"
    by (simp add: d single_local_point_def) (simp add: mesh_one_def mesh_ex_def)
  have err: "\<exists>e. bndry_point mesh_one ?F ?R ?d (extrap_start_of CELL_XLOW ?d) (1, 2) ?h = Inl e"
    by (rule iffD2[OF boundary_point_then_cubic [OF match_d, THEN conjunct1]])
      (intro conjI enough_d single_d)
  from match enough cubic match_c few const match_d enough_d single_d err
  show ?thesis by (intro conjI)
qed

text \<open>
  Claim C7 as stated fails where the global grid is small. On \<open>mesh_bx\<close> (1 point in x
  globally, boundary width 2) with target \<open>CELL_XLOW\<close> the boundary point \<open>(3, 2)\<close> is
  interpolated to 25/4, and the remaining guard cell \<open>(4, 2)\<close> is set to 4, the value at
  \<open>(2, 2)\<close>, where the cubic rule gives 31/4.
\<close>

theorem cubic_rule_counterexample:
  "extrap_start_of CELL_XLOW (hd (getBoundaries mesh_bx)) = 1 \<and>
   values_at [(1, 2), (2, 2), (3, 2), (4, 2)]
     (interpolateAndExtrapolate_val mesh_bx field_x2 CELL_XLOW False)
     = Inr [Fin 1, Fin 4, Fin (25 / 4), Fin 4] \<and>
   Fin 3 * Fin (25 / 4) - Fin 3 * Fin 4 + Fin 1 \<noteq> Fin 4"
  by (simp add: iae_eval mesh_bx_def mesh_ex_def field_x2_def)

section \<open>The fallback for small grids\<close>

text \<open>
  Claim C5, as the code has it. At a boundary point (the normal is not zero): when the
  global grid has fewer than 3 points in the direction of the normal once twice the
  boundary width is taken off, the guard cells from \<open>extrap_start\<close> on are set to the value
  of the last cell inside, and no error is raised. An error is raised exactly when the
  global grid has at least 3 such points and the local grid has a single point in that
  direction with a boundary of width 1; the error is one of the two "Not enough points
  ... needed to use staggered grids" exceptions.
\<close>

theorem boundary_guard_cells_fallback:
  assumes nz: "bx bndry \<noteq> 0 \<or> by' bndry \<noteq> 0"
  shows "((\<exists>e. bndry_point m f result bndry (extrap_start_of loc bndry) p h = Inl e) \<longleftrightarrow>
            global_points_suffice m bndry \<and> single_local_point m bndry) \<and>
         (\<forall>e. bndry_point m f result bndry (extrap_start_of loc bndry) p h = Inl e \<longrightarrow>
            e = BoutException not_enough_x \<or> e = BoutException not_enough_y) \<and>
         (\<not> global_points_suffice m bndry \<longrightarrow>
            (\<exists>h1. bndry_point m f result bndry (extrap_start_of loc bndry) p h = Inr h1 \<and>
               rd h1 result (bndry_cell bndry p (- 1)) = rd h result (bndry_cell bndry p (- 1)) \<and>
               (\<forall>n. extrap_start_of loc bndry \<le> n \<and> n < width bndry \<longrightarrow>
                  rd h1 result (bndry_cell bndry p n) = rd h1 result (bndry_cell bndry p (- 1)))))"
proof -
  let ?es = "extrap_start_of loc bndry"
  let ?h0 = "if 0 < ?es then wr result p (interp_bndry_point h f bndry p) h else h"
  let ?h1 = "extrapolate_const result bndry p [?es .. width bndry - 1] ?h0"
  have es0: "0 \<le> ?es" using extrap_start_cases[of loc bndry] by auto
  have a: "(\<exists>e. bndry_point m f result bndry ?es p h = Inl e) \<longleftrightarrow>
            global_points_suffice m bndry \<and> single_local_point m bndry"
    by (simp add: bndry_point_cases)
  have b: "\<forall>e. bndry_point m f result bndry ?es p h = Inl e \<longrightarrow>
            e = BoutException not_enough_x \<or> e = BoutException not_enough_y"
    by (auto simp: bndry_point_cases split: if_splits)
  have c: "\<exists>h1. bndry_point m f result bndry ?es p h = Inr h1 \<and>
               rd h1 result (bndry_cell bndry p (- 1)) = rd h result (bndry_cell bndry p (- 1)) \<and>
               (\<forall>n. ?es \<le> n \<and> n < width bndry \<longrightarrow>
                  rd h1 result (bndry_cell bndry p n) = rd h1 result (bndry_cell bndry p (- 1)))"
    if few: "\<not> global_points_suffice m bndry"
  proof -
    have ret: "bndry_point m f result bndry ?es p h = Inr ?h1"
      by (simp add: bndry_point_cases few)
    have pm: "bndry_cell bndry p (- 1) \<noteq> p"
      using bndry_cell_inj[OF nz, of p "- 1" 0] by simp
    then have h0: "rd ?h0 result (bndry_cell bndry p (- 1)) = rd h result (bndry_cell bndry p (- 1))"
      by simp
    have "bndry_cell bndry p (- 1) \<notin> bndry_cell bndry p ` set [?es .. width bndry - 1]"
      using es0 by (auto simp: bndry_cell_inj[OF nz])
    then have inside: "rd ?h1 result (bndry_cell bndry p (- 1)) = rd h result (bndry_cell bndry p (- 1))"
      using h0 by (simp add: extrapolate_const_other)
    have cells: "rd ?h1 result (bndry_cell bndry p n) = rd ?h1 result (bndry_cell bndry p (- 1))"
      if "?es \<le> n" "n < width bndry" for n
    proof -
      have "n \<in> set [?es .. width bndry - 1]" using that by simp
      moreover have "\<forall>k\<in>set [?es .. width bndry - 1]. 0 \<le> k" using es0 by simp
      ultimately show ?thesis
        using extrapolate_const_rule[OF nz, of "[?es .. width bndry - 1]" n result p ?h0]
        by simp
    qed
    from ret inside cells show ?thesis by blast
  qed
  from a b c show ?thesis by blast
qed


theorem boundary_guard_cells_fallback_witness:
  "bx (hd (getBoundaries mesh_bx)) = 1 \<and>
   \<not> global_points_suffice mesh_bx (hd (getBoundaries mesh_bx)) \<and>
   (\<exists>h1. bndry_point mesh_bx \<lparr>ref_data = 0, ref_loc = CELL_CENTRE\<rparr>
            \<lparr>ref_data = 1, ref_loc = CELL_CENTRE\<rparr> (hd (getBoundaries mesh_bx))
            (extrap_start_of CELL_CENTRE (hd (getBoundaries mesh_bx))) (3, 2)
            (heap_of (fvals field_x2)) = Inr h1 \<and>
      rd h1 \<lparr>ref_data = 1, ref_loc = CELL_CENTRE\<rparr> (2, 2) = Fin 4 \<and>
      rd h1 \<lparr>ref_data = 1, ref_loc = CELL_CENTRE\<rparr> (3, 2) =
        rd h1 \<lparr>ref_data = 1, ref_loc = CELL_CENTRE\<rparr> (2, 2) \<and>
      rd h1 \<lparr>ref_data = 1, ref_loc = CELL_CENTRE\<rparr> (4, 2) =
        rd h1 \<lparr>ref_data = 1, ref_loc = CELL_CENTRE\<rparr> (2, 2))"
proof -
  let ?b = "hd (getBoundaries mesh_bx)"
  let ?r = "\<lparr>ref_data = 1, ref_loc = CELL_CENTRE\<rparr>"
  have b: "?b = \<lparr>bx = 1, by' = 0, width = 2, bpoints = [(3, 2)]\<rparr>"
    by (simp add: mesh_bx_def)
  have nz: "bx ?b \<noteq> 0 \<or> by' ?b \<noteq> 0" by (simp add: b)
  have few: "\<not> global_points_suffice mesh_bx ?b"
    by (simp add: b global_points_suffice_def) (simp add: mesh_bx_def mesh_ex_def)
  have es: "extrap_start_of CELL_CENTRE ?b = 0" by (simp add: extrap_start_of_def)
  have cells: "bndry_cell ?b (3, 2) (- 1) = (2, 2)" "bndry_cell ?b (3, 2) 0 = (3, 2)"
    "bndry_cell ?b (3, 2) 1 = (4, 2)"
    by (simp_all add: b bndry_cell_def)
  from boundary_guard_cells_fallback [OF nz, of mesh_bx "\<lparr>ref_data = 0, ref_loc = CELL_CENTRE\<rparr>"
      ?r CELL_CENTRE "(3, 2)" "heap_of (fvals field_x2)"] few
  obtain h1 where h1:
    "bndry_point mesh_bx \<lparr>ref_data = 0, ref_loc = CELL_CENTRE\<rparr> ?r ?b
       (extrap_start_of CELL_CENTRE ?b) (3, 2) (heap_of (fvals field_x2)) = Inr h1"
    "rd h1 ?r (bndry_cell ?b (3, 2) (- 1)) = rd (heap_of (fvals field_x2)) ?r (bndry_cell ?b (3, 2) (- 1))"
    "\<forall>n. extrap_start_of CELL_CENTRE ?b \<le> n \<and> n < width ?b \<longrightarrow>
       rd h1 ?r (bndry_cell ?b (3, 2) n) = rd h1 ?r (bndry_cell ?b (3, 2) (- 1))"
    by blast
  have w0: "extrap_start_of CELL_CENTRE ?b \<le> 0 \<and> 0 < width ?b"
    and w1: "extrap_start_of CELL_CENTRE ?b \<le> 1 \<and> 1 < width ?b"
    by (simp_all add: es) (simp_all add: b)
  have in4: "rd h1 ?r (2, 2) = Fin 4"
    using h1(2) unfolding cells by (simp add: rd_def heap_of_def field_x2_def)
  have c0: "rd h1 ?r (3, 2) = rd h1 ?r (2, 2)"
    using h1(3)[rule_format, OF w0] unfolding cells .
  have c1: "rd h1 ?r (4, 2) = rd h1 ?r (2, 2)"
    using h1(3)[rule_format, OF w1] unfolding cells .
  have "bx ?b = 1" by (simp add: b)
  with few h1(1) in4 c0 c1 show ?thesis by blast
qed

text \<open>
  Claim C5 as stated fails on both counts. On \<open>mesh_split\<close> the processor has 2 interior
  points in x (fewer than 3) and the guard cells \<open>(4, 2)\<close>, \<open>(5, 2)\<close> are filled by the
  cubic rule (16 and 25, not the last interior value 9), because the global grid has 4.
  On \<open>mesh_zero\<close> the processor has no interior point in x and the call returns, with the
  guard cells set to a constant.
\<close>

theorem constant_fallback_counterexample:
  "LocalNx mesh_split - 2 * width (hd (getBoundaries mesh_split)) = 2 \<and>
   values_at [(1, 2), (2, 2), (3, 2), (4, 2), (5, 2)]
     (interpolateAndExtrapolate_val mesh_split field_x2 CELL_CENTRE False)
     = Inr [Fin 1, Fin 4, Fin 9, Fin 16, Fin 25] \<and>
   LocalNx mesh_zero - 2 * width (hd (getBoundaries mesh_zero)) = 0 \<and>
   values_at [(1, 2), (2, 2), (3, 2)]
     (interpolateAndExtrapolate_val mesh_zero field_x2 CELL_CENTRE False)
     = Inr [Fin 1, Fin 1, Fin 1]"
  by (simp add: iae_eval mesh_split_def mesh_zero_def mesh_ex_def field_x2_def)


section \<open>The builders\<close>







lemma geometry_keeps:
  "zShift (non_uniform_correction m (communicate_christoffel m (christoffel m c))) = zShift c"
  "dx (non_uniform_correction m (communicate_christoffel m (christoffel m c))) = dx c"
  "J (non_uniform_correction m (communicate_christoffel m (christoffel m c))) = J c"
  "ShiftAngle (non_uniform_correction m (communicate_christoffel m (christoffel m c))) = ShiftAngle c"
  "location (non_uniform_correction m (communicate_christoffel m (christoffel m c))) = location c"
  by (simp_all add: communicate_christoffel_def non_uniform_correction_def christoffel_def Let_def
        split: option.splits)

text \<open>The two matrices that the examples invert: all \<open>NaN\<close> (a corner cell), the identity.\<close>

lemma invert3x3_examples:
  "invert3x3 (metric_matrix NaN NaN NaN NaN NaN NaN) =
     Some [[NaN, NaN, NaN], [NaN, NaN, NaN], [NaN, NaN, NaN]]"
  "invert3x3 (metric_matrix (Fin 1) (Fin 1) (Fin 1) (Fin 0) (Fin 0) (Fin 0)) =
     Some [[Fin 1, Fin 0, Fin 0], [Fin 0, Fin 1, Fin 0], [Fin 0, Fin 0, Fin 1]]"
  by (simp_all add: invert3x3_def metric_matrix_def Let_def zero_BoutReal_def minus_BoutReal_def)

lemmas builder_eval =
  iae_eval check_interpolated_metrics_def finite_f_def min_f_def rgn_points_def
  calcCovariant_or_throw_def calcCovariant_def invert3x3_examples jacobian_def jacobian_g_def
  geometry_def field_ops geometry_keeps correct_zShift_def mesh_ex_def coords_flat_def

section \<open>zShift in the staggered builder\<close>





section \<open>The precondition of the corner builder\<close>

text \<open>
  The corner builder on \<open>mesh_ex\<close>, a mesh with a single interior point in x and in y and
  2 guard cells on every side, from flat space at \<open>CELL_XLOW\<close>: it returns.
\<close>

lemma corner_mesh_ex:
  "\<exists>c. getCoordinatesXYCorner mesh_ex coords_flat coords_xlow = Inr c \<and> J c (2, 2) = Fin 1"
  unfolding getCoordinatesXYCorner_def
  by (simp add: assign_corner_def interpXLOWToXYCorner_val_def interpXLOWToXYCorner_def
      shift_outer_x_def copy_outer_x_def builder_eval coords_xlow_def)

text \<open>
  Claim C3, amended. The assertion at the head of \<open>interpXLOWToXYCorner\<close> tests the
  number of guard cells, \<open>xstart > 1 && ystart > 1\<close>, not the number of interior points.
  The corner builder fails with this assertion whenever the mesh has fewer than 2 guard
  cells in x or in y, whatever the objects it starts from; it returns an object only on a
  mesh with at least 2 guard cells in both directions.
\<close>

theorem corner_builder_precondition:
  "(\<not> (1 < xstart m \<and> 1 < ystart m) \<longrightarrow>
      getCoordinatesXYCorner m c0 cx =
        Inl (AssertFailed ''localmesh->xstart > 1 && localmesh->ystart > 1'')) \<and>
   (\<forall>c. getCoordinatesXYCorner m c0 cx = Inr c \<longrightarrow> 1 < xstart m \<and> 1 < ystart m)"
proof -
  have a: "getCoordinatesXYCorner m c0 cx =
        Inl (AssertFailed ''localmesh->xstart > 1 && localmesh->ystart > 1'')"
    if "\<not> (1 < xstart m \<and> 1 < ystart m)"
    using that
    by (simp add: getCoordinatesXYCorner_def assign_corner_def interpXLOWToXYCorner_val_def
        interpXLOWToXYCorner_def)
  show ?thesis
  proof (intro conjI impI allI)
    fix c
    assume r: "getCoordinatesXYCorner m c0 cx = Inr c"
    have "1 < xstart m \<and> 1 < ystart m"
    proof (rule ccontr)
      assume "\<not> ?thesis"
      from a[OF this] r show False by simp
    qed
    then show "1 < xstart m" "1 < ystart m" by simp_all
  qed (rule a)
qed

theorem corner_builder_precondition_witness:
  "xstart mesh_thin = 1 \<and> xend mesh_thin - xstart mesh_thin + 1 = 3 \<and>
   getCoordinatesXYCorner mesh_thin coords_flat coords_xlow =
     Inl (AssertFailed ''localmesh->xstart > 1 && localmesh->ystart > 1'') \<and>
   (\<exists>c. getCoordinatesXYCorner mesh_ex coords_flat coords_xlow = Inr c) \<and>
   1 < xstart mesh_ex \<and> 1 < ystart mesh_ex"
proof -
  have thin: "xstart mesh_thin = 1" "xend mesh_thin - xstart mesh_thin + 1 = 3"
    by (simp_all add: mesh_thin_def mesh_ex_def)
  then have "\<not> (1 < xstart mesh_thin \<and> 1 < ystart mesh_thin)" by simp
  with corner_builder_precondition [of mesh_thin coords_flat coords_xlow]
  have f: "getCoordinatesXYCorner mesh_thin coords_flat coords_xlow =
     Inl (AssertFailed ''localmesh->xstart > 1 && localmesh->ystart > 1'')"
    by blast
  from corner_mesh_ex obtain c where
    c: "getCoordinatesXYCorner mesh_ex coords_flat coords_xlow = Inr c" by blast
  with corner_builder_precondition [of mesh_ex coords_flat coords_xlow]
  have "1 < xstart mesh_ex \<and> 1 < ystart mesh_ex" by blast
  with thin f c show ?thesis by blast
qed

text \<open>
  Claim C3 as stated fails on \<open>mesh_ex\<close>: a single interior point in x and in y, fewer
  than 2 in both directions, and the corner builder returns an object, with \<open>J = 1\<close> at
  the interior point.
\<close>

theorem corner_builder_counterexample:
  "xend mesh_ex - xstart mesh_ex + 1 = 1 \<and> yend mesh_ex - ystart mesh_ex + 1 = 1 \<and>
   map_sum id (\<lambda>c. J c (2, 2)) (getCoordinatesXYCorner mesh_ex coords_flat coords_xlow)
     = Inr (Fin 1)"
proof -
  from corner_mesh_ex obtain c where
    c: "getCoordinatesXYCorner mesh_ex coords_flat coords_xlow = Inr c" "J c (2, 2) = Fin 1"
    by blast
  have "xend mesh_ex - xstart mesh_ex + 1 = 1" "yend mesh_ex - ystart mesh_ex + 1 = 1"
    by (simp_all add: mesh_ex_def)
  with c show ?thesis by simp
qed
end
